theory Spec2Isabelle
  imports Main "HOL-Library.AList"
begin

section \<open>The model registry of eval-hub: \<^verbatim>\<open>eval_hub/services/model_service.py\<close>\<close>

text \<open>
  The service keeps two dictionaries from model identifiers to models: the registered
  models, changed by register, update and delete, and the runtime models, rebuilt from
  the process environment. A Python dictionary keeps its keys in insertion order and
  the listing walks it in that order, so a dictionary is an association list with
  \<open>AList.update\<close> for \<^verbatim>\<open>d[k] = v\<close> (in place for a key that is there, at the end for a new
  one), \<open>AList.delete\<close> for \<^verbatim>\<open>del d[k]\<close> and \<open>map_of\<close> for a lookup. A \<^verbatim>\<open>raise\<close> is the
  \<open>Inl\<close> of a sum; every operation returns the service it leaves behind.
\<close>

subsection \<open>Data model\<close>

text \<open>A \<^verbatim>\<open>datetime\<close>, as a count of clock ticks.\<close>

type_synonym datetime = int

text \<open>
  Modelled from the spec: the enumeration \<^verbatim>\<open>ModelType\<close> is declared in
  \<^verbatim>\<open>eval_hub/models/model.py\<close>, which is not part of the sources at hand. The service
  names one member, \<^verbatim>\<open>OPENAI_COMPATIBLE\<close>, whose value it writes as
  \<^verbatim>\<open>openai-compatible\<close>; every other member is \<open>OTHER_MODEL_TYPE\<close> of its value, and
  the list of those values is a field of \<open>world\<close> below.
\<close>

datatype ModelType = OPENAI_COMPATIBLE | OTHER_MODEL_TYPE string

text \<open>
  Modelled from the spec: the enumeration \<^verbatim>\<open>ModelStatus\<close> (active, inactive and
  others) is declared in the same absent module; the service names \<^verbatim>\<open>ACTIVE\<close> only.
\<close>

datatype ModelStatus = ACTIVE | INACTIVE | OTHER_STATUS string

text \<open>
  Modelled from the spec: the capability flags and the configuration bag of a model are
  objects of the absent module. The service either builds them with no argument
  (\<^verbatim>\<open>ModelCapabilities()\<close>, \<^verbatim>\<open>ModelConfig()\<close>) or stores the one a request carries.
\<close>

datatype ModelCapabilities = ModelCapabilities_default | ModelCapabilities_of "(string \<times> bool) list"

datatype ModelConfig = ModelConfig_default | ModelConfig_of "(string \<times> string) list"

record Model =
  model_id :: string
  model_name :: string
  description :: string
  model_type :: ModelType
  base_url :: string
  api_key_required :: bool
  model_path :: "string option"
  capabilities :: ModelCapabilities
  config :: ModelConfig
  status :: ModelStatus
  tags :: "string list"
  created_at :: datetime
  updated_at :: datetime

text \<open>The fields of \<^verbatim>\<open>ModelRegistrationRequest\<close> that \<^verbatim>\<open>register_model\<close> reads.\<close>

record ModelRegistrationRequest =
  reg_model_id :: string
  reg_model_name :: string
  reg_description :: string
  reg_model_type :: ModelType
  reg_base_url :: string
  reg_api_key_required :: bool
  reg_model_path :: "string option"
  reg_capabilities :: "ModelCapabilities option"
  reg_config :: "ModelConfig option"
  reg_status :: ModelStatus
  reg_tags :: "string list"

text \<open>
  The fields of \<^verbatim>\<open>ModelUpdateRequest\<close>: each one is \<^verbatim>\<open>None\<close> when the request does
  not supply it.
\<close>

record ModelUpdateRequest =
  upd_model_name :: "string option"
  upd_description :: "string option"
  upd_model_type :: "ModelType option"
  upd_base_url :: "string option"
  upd_api_key_required :: "bool option"
  upd_model_path :: "string option"
  upd_capabilities :: "ModelCapabilities option"
  upd_config :: "ModelConfig option"
  upd_status :: "ModelStatus option"
  upd_tags :: "string list option"

record ModelSummary =
  sum_model_id :: string
  sum_model_name :: string
  sum_description :: string
  sum_model_type :: ModelType
  sum_base_url :: string
  sum_status :: ModelStatus
  sum_tags :: "string list"
  sum_created_at :: datetime

record ListModelsResponse =
  models :: "ModelSummary list"
  total_models :: nat
  resp_runtime_models :: "ModelSummary list"

text \<open>The attributes of a \<^verbatim>\<open>ModelService\<close> object (\<^verbatim>\<open>settings\<close> is stored and never read).\<close>

record ModelService =
  registered_models :: "(string \<times> Model) list"
  runtime_models :: "(string \<times> Model) list"
  initialized :: bool

text \<open>
  What a call reads from outside the object: the environment (\<^verbatim>\<open>os.environ.items()\<close> in
  its iteration order), the clock, and the values of the members of \<^verbatim>\<open>ModelType\<close> other
  than \<^verbatim>\<open>OPENAI_COMPATIBLE\<close>. The scan of the environment reads \<^verbatim>\<open>datetime.utcnow()\<close>
  twice for each model it builds: \<open>scan_utcnow var\<close> is the pair of readings taken while
  the variable \<open>var\<close> is processed. \<open>utcnow\<close> is the reading taken by the body of
  \<^verbatim>\<open>register_model\<close> or \<^verbatim>\<open>update_model\<close>.

  A string is the list of the bytes of its UTF-8 encoding. On text that is not all ASCII
  the methods \<^verbatim>\<open>str.lower\<close>, \<^verbatim>\<open>str.upper\<close> and \<^verbatim>\<open>str.strip\<close> consult the Unicode tables
  of the interpreter, which are not part of the sources at hand: \<open>unicode_lower\<close>,
  \<open>unicode_upper\<close> and \<open>unicode_strip\<close> are what they return on such a string.
\<close>

record world =
  environ :: "(string \<times> string) list"
  utcnow :: datetime
  scan_utcnow :: "string \<Rightarrow> datetime \<times> datetime"
  other_model_types :: "string list"
  unicode_lower :: "string \<Rightarrow> string"
  unicode_upper :: "string \<Rightarrow> string"
  unicode_strip :: "string \<Rightarrow> string"

datatype error = ValueError string

subsection \<open>Strings\<close>

text \<open>
  \<^verbatim>\<open>str.lower\<close>, \<^verbatim>\<open>str.upper\<close> and \<^verbatim>\<open>str.strip\<close>. On a string of ASCII characters only
  (no byte has its highest bit set) they map the letters A to Z and a to z onto each other
  and strip the white space of the ASCII range, which is the characters 9 to 13, 28 to 31
  and the space; on any other string they are the functions of the surroundings.
\<close>

definition is_ascii :: "string \<Rightarrow> bool" where
  "is_ascii s = list_all (\<lambda>c. \<not> digit7 c) s"

definition lower_char :: "char \<Rightarrow> char" where
  "lower_char c =
     (case map_of (zip ''ABCDEFGHIJKLMNOPQRSTUVWXYZ'' ''abcdefghijklmnopqrstuvwxyz'') c of
        None \<Rightarrow> c | Some d \<Rightarrow> d)"

definition upper_char :: "char \<Rightarrow> char" where
  "upper_char c =
     (case map_of (zip ''abcdefghijklmnopqrstuvwxyz'' ''ABCDEFGHIJKLMNOPQRSTUVWXYZ'') c of
        None \<Rightarrow> c | Some d \<Rightarrow> d)"

definition lower :: "world \<Rightarrow> string \<Rightarrow> string" where
  "lower w s = (if is_ascii s then map lower_char s else unicode_lower w s)"

definition upper :: "world \<Rightarrow> string \<Rightarrow> string" where
  "upper w s = (if is_ascii s then map upper_char s else unicode_upper w s)"

definition isspace :: "char \<Rightarrow> bool" where
  "isspace c = (c \<in> set [CHR 0x09, CHR 0x0A, CHR 0x0B, CHR 0x0C, CHR 0x0D,
                          CHR 0x1C, CHR 0x1D, CHR 0x1E, CHR 0x1F, CHR 0x20])"

definition strip :: "world \<Rightarrow> string \<Rightarrow> string" where
  "strip w s =
     (if is_ascii s then rev (dropWhile isspace (rev (dropWhile isspace s)))
      else unicode_strip w s)"

definition startswith :: "string \<Rightarrow> string \<Rightarrow> bool" where
  "startswith s p = (take (length p) s = p)"

definition endswith :: "string \<Rightarrow> string \<Rightarrow> bool" where
  "endswith s p = (length p \<le> length s \<and> drop (length s - length p) s = p)"

text \<open>
  \<^verbatim>\<open>re.match(r'EVAL_HUB_MODEL_(.+)_URL', env_var)\<close>: the match is anchored at the start
  only; the group is greedy, so it is the longest non-empty run after the prefix that
  holds no line feed (which \<^verbatim>\<open>.\<close> does not match) and is followed by \<^verbatim>\<open>_URL\<close>.
  \<open>re_group rest n\<close> tries the lengths \<open>n\<close>, \<open>n - 1\<close>, ..., \<open>1\<close> in that order.
\<close>

fun re_group :: "string \<Rightarrow> nat \<Rightarrow> string option" where
  "re_group rest 0 = None"
| "re_group rest (Suc n) =
     (if CHR 0x0A \<notin> set (take (Suc n) rest) \<and> take 4 (drop (Suc n) rest) = ''_URL''
      then Some (take (Suc n) rest)
      else re_group rest n)"

definition re_match :: "string \<Rightarrow> string option" where
  "re_match env_var =
     (if startswith env_var ''EVAL_HUB_MODEL_''
      then re_group (drop 15 env_var) (length env_var - 15)
      else None)"

subsection \<open>Loading the runtime models\<close>

definition getenv :: "world \<Rightarrow> string \<Rightarrow> string option" where
  "getenv w name = map_of (environ w) name"

text \<open>
  \<^verbatim>\<open>ModelType(value)\<close>: the member with that value, \<open>None\<close> for the \<^verbatim>\<open>ValueError\<close> of a
  value that no member has.
\<close>

definition ModelType_of :: "world \<Rightarrow> string \<Rightarrow> ModelType option" where
  "ModelType_of w v =
     (if v = ''openai-compatible'' then Some OPENAI_COMPATIBLE
      else if v \<in> set (other_model_types w) then Some (OTHER_MODEL_TYPE v)
      else None)"

text \<open>
  The group of the variable name when the loop takes it for a model URL (the test on
  the prefix and the suffix, then the regular expression), \<open>None\<close> when it moves on.
\<close>

definition url_variable :: "string \<Rightarrow> string option" where
  "url_variable env_var =
     (if startswith env_var ''EVAL_HUB_MODEL_'' \<and> endswith env_var ''_URL''
      then re_match env_var
      else None)"

text \<open>
  The body of the loop for one item of the environment: the model it builds, \<open>None\<close>
  where it reaches a \<^verbatim>\<open>continue\<close>.
\<close>

definition runtime_model :: "world \<Rightarrow> string \<Rightarrow> string \<Rightarrow> Model option" where
  "runtime_model w env_var env_value =
     (case url_variable env_var of
        None \<Rightarrow> None
      | Some group1 \<Rightarrow>
          let mid = lower w group1;
              url = strip w env_value
          in if url = [] then None
             else
               let name_var = ''EVAL_HUB_MODEL_'' @ group1 @ ''_NAME'';
                   type_var = ''EVAL_HUB_MODEL_'' @ group1 @ ''_TYPE'';
                   path_var = ''EVAL_HUB_MODEL_'' @ group1 @ ''_PATH'';
                   mname = (case getenv w name_var of
                              None \<Rightarrow> ''Runtime Model '' @ upper w mid | Some v \<Rightarrow> v);
                   model_type_str = (case getenv w type_var of
                                       None \<Rightarrow> ''openai-compatible'' | Some v \<Rightarrow> v);
                   mpath = getenv w path_var;
                   mtype = (case ModelType_of w (lower w model_type_str) of
                              None \<Rightarrow> OPENAI_COMPATIBLE | Some t \<Rightarrow> t)
               in Some \<lparr> model_id = mid,
                         model_name = mname,
                         description = ''Runtime-specified model: '' @ mname,
                         model_type = mtype,
                         base_url = url,
                         api_key_required = True,
                         model_path = mpath,
                         capabilities = ModelCapabilities_default,
                         config = ModelConfig_default,
                         status = ACTIVE,
                         tags = [''runtime''],
                         created_at = fst (scan_utcnow w env_var),
                         updated_at = snd (scan_utcnow w env_var) \<rparr>)"

text \<open>The loop over the items, with the dictionary \<^verbatim>\<open>runtime_models\<close> it fills.\<close>

fun scan_environ :: "world \<Rightarrow> (string \<times> string) list \<Rightarrow> (string \<times> Model) list \<Rightarrow> (string \<times> Model) list" where
  "scan_environ w [] acc = acc"
| "scan_environ w ((env_var, env_value) # items) acc =
     (case runtime_model w env_var env_value of
        None \<Rightarrow> scan_environ w items acc
      | Some m \<Rightarrow> scan_environ w items (AList.update (model_id m) m acc))"

definition load_runtime_models :: "world \<Rightarrow> ModelService \<Rightarrow> ModelService" where
  "load_runtime_models w s = s\<lparr>runtime_models := scan_environ w (environ w) []\<rparr>"

definition initialize :: "world \<Rightarrow> ModelService \<Rightarrow> ModelService" where
  "initialize w s =
     (if initialized s then s else (load_runtime_models w s)\<lparr>initialized := True\<rparr>)"

text \<open>The object that \<^verbatim>\<open>ModelService(settings)\<close> builds.\<close>

definition ModelService_init :: ModelService where
  "ModelService_init = \<lparr>registered_models = [], runtime_models = [], initialized = False\<rparr>"

subsection \<open>The operations\<close>

definition contains :: "(string \<times> Model) list \<Rightarrow> string \<Rightarrow> bool" where
  "contains d k = (map_of d k \<noteq> None)"

definition already_exists :: "string \<Rightarrow> error" where
  "already_exists mid =
     ValueError (''Model with ID '' @ [CHR 0x27] @ mid @ [CHR 0x27] @ '' already exists'')"

definition specified_as_runtime :: "string \<Rightarrow> error" where
  "specified_as_runtime mid =
     ValueError (''Model with ID '' @ [CHR 0x27] @ mid @ [CHR 0x27] @
                 '' is specified as runtime model via environment variable'')"

definition cannot_update :: error where
  "cannot_update = ValueError ''Cannot update runtime models specified via environment variables''"

definition cannot_delete :: error where
  "cannot_delete = ValueError ''Cannot delete runtime models specified via environment variables''"

text \<open>The model that \<^verbatim>\<open>register_model\<close> builds from a request at the reading \<open>now\<close>.\<close>

definition new_model :: "datetime \<Rightarrow> ModelRegistrationRequest \<Rightarrow> Model" where
  "new_model now request =
     \<lparr> model_id = reg_model_id request,
       model_name = reg_model_name request,
       description = reg_description request,
       model_type = reg_model_type request,
       base_url = reg_base_url request,
       api_key_required = reg_api_key_required request,
       model_path = reg_model_path request,
       capabilities = (case reg_capabilities request of
                         None \<Rightarrow> ModelCapabilities_default | Some c \<Rightarrow> c),
       config = (case reg_config request of None \<Rightarrow> ModelConfig_default | Some c \<Rightarrow> c),
       status = reg_status request,
       tags = reg_tags request,
       created_at = now,
       updated_at = now \<rparr>"

definition register_model ::
  "world \<Rightarrow> ModelRegistrationRequest \<Rightarrow> ModelService \<Rightarrow> (error + Model) \<times> ModelService" where
  "register_model w request s0 =
     (let s = initialize w s0 in
      if contains (registered_models s) (reg_model_id request)
      then (Inl (already_exists (reg_model_id request)), s)
      else if contains (runtime_models s) (reg_model_id request)
      then (Inl (specified_as_runtime (reg_model_id request)), s)
      else
        let now = utcnow w;
            model = new_model now request
        in (Inr model,
            s\<lparr>registered_models :=
                 AList.update (reg_model_id request) model (registered_models s)\<rparr>))"

text \<open>
  One statement of \<^verbatim>\<open>update_model\<close>, \<^verbatim>\<open>if request.f is not None: model.f = request.f\<close>:
  the assignment \<open>assign\<close> is made when the request supplies the value.
\<close>

definition if_not_None :: "'a option \<Rightarrow> ('a \<Rightarrow> Model \<Rightarrow> Model) \<Rightarrow> Model \<Rightarrow> Model" where
  "if_not_None value assign model = (case value of None \<Rightarrow> model | Some v \<Rightarrow> assign v model)"

text \<open>
  The assignments of \<^verbatim>\<open>update_model\<close> to the stored model, in the order of the source,
  then the time of update.
\<close>

definition apply_update :: "datetime \<Rightarrow> ModelUpdateRequest \<Rightarrow> Model \<Rightarrow> Model" where
  "apply_update now request model =
     (let model = if_not_None (upd_model_name request) (\<lambda>v m. m\<lparr>model_name := v\<rparr>) model;
          model = if_not_None (upd_description request) (\<lambda>v m. m\<lparr>description := v\<rparr>) model;
          model = if_not_None (upd_model_type request) (\<lambda>v m. m\<lparr>model_type := v\<rparr>) model;
          model = if_not_None (upd_base_url request) (\<lambda>v m. m\<lparr>base_url := v\<rparr>) model;
          model = if_not_None (upd_api_key_required request)
                    (\<lambda>v m. m\<lparr>api_key_required := v\<rparr>) model;
          model = if_not_None (upd_model_path request) (\<lambda>v m. m\<lparr>model_path := Some v\<rparr>) model;
          model = if_not_None (upd_capabilities request) (\<lambda>v m. m\<lparr>capabilities := v\<rparr>) model;
          model = if_not_None (upd_config request) (\<lambda>v m. m\<lparr>config := v\<rparr>) model;
          model = if_not_None (upd_status request) (\<lambda>v m. m\<lparr>status := v\<rparr>) model;
          model = if_not_None (upd_tags request) (\<lambda>v m. m\<lparr>tags := v\<rparr>) model
      in model\<lparr>updated_at := now\<rparr>)"

text \<open>
  \<^verbatim>\<open>update_model\<close> changes the stored object in place, so the entry keeps its place in
  the dictionary; the result \<open>Inr None\<close> is the \<^verbatim>\<open>return None\<close> of an absent identifier.
\<close>

definition update_model ::
  "world \<Rightarrow> string \<Rightarrow> ModelUpdateRequest \<Rightarrow> ModelService
     \<Rightarrow> (error + Model option) \<times> ModelService" where
  "update_model w mid request s0 =
     (let s = initialize w s0 in
      if contains (runtime_models s) mid then (Inl cannot_update, s)
      else
        case map_of (registered_models s) mid of
          None \<Rightarrow> (Inr None, s)
        | Some model \<Rightarrow>
            let model' = apply_update (utcnow w) request model
            in (Inr (Some model'),
                s\<lparr>registered_models := AList.update mid model' (registered_models s)\<rparr>))"

definition delete_model :: "world \<Rightarrow> string \<Rightarrow> ModelService \<Rightarrow> (error + bool) \<times> ModelService" where
  "delete_model w mid s0 =
     (let s = initialize w s0 in
      if contains (runtime_models s) mid then (Inl cannot_delete, s)
      else if contains (registered_models s) mid
      then (Inr True, s\<lparr>registered_models := AList.delete mid (registered_models s)\<rparr>)
      else (Inr False, s))"

definition get_model_by_id :: "world \<Rightarrow> string \<Rightarrow> ModelService \<Rightarrow> Model option \<times> ModelService" where
  "get_model_by_id w mid s0 =
     (let s = initialize w s0 in
      case map_of (registered_models s) mid of
        Some model \<Rightarrow> (Some model, s)
      | None \<Rightarrow> (map_of (runtime_models s) mid, s))"

definition summary_of :: "Model \<Rightarrow> ModelSummary" where
  "summary_of model =
     \<lparr> sum_model_id = model_id model,
       sum_model_name = model_name model,
       sum_description = description model,
       sum_model_type = model_type model,
       sum_base_url = base_url model,
       sum_status = status model,
       sum_tags = tags model,
       sum_created_at = created_at model \<rparr>"

text \<open>The two loops of \<^verbatim>\<open>get_all_models\<close> over the values of the dictionaries.\<close>

fun registered_summaries :: "bool \<Rightarrow> Model list \<Rightarrow> ModelSummary list" where
  "registered_summaries include_inactive [] = []"
| "registered_summaries include_inactive (model # rest) =
     (if include_inactive \<or> status model = ACTIVE
      then summary_of model # registered_summaries include_inactive rest
      else registered_summaries include_inactive rest)"

fun runtime_summaries :: "Model list \<Rightarrow> ModelSummary list" where
  "runtime_summaries [] = []"
| "runtime_summaries (model # rest) = summary_of model # runtime_summaries rest"

definition get_all_models :: "world \<Rightarrow> bool \<Rightarrow> ModelService \<Rightarrow> ListModelsResponse \<times> ModelService" where
  "get_all_models w include_inactive s0 =
     (let s = initialize w s0;
          registered = registered_summaries include_inactive (map snd (registered_models s));
          runtime = runtime_summaries (map snd (runtime_models s));
          all_summaries = registered @ runtime
      in (\<lparr> models = all_summaries,
            total_models = length all_summaries,
            resp_runtime_models = runtime \<rparr>, s))"

text \<open>
  \<^verbatim>\<open>reload_runtime_models\<close> empties the dictionary and loads it again; it neither reads nor
  sets the flag \<^verbatim>\<open>_initialized\<close>.
\<close>

definition reload_runtime_models :: "world \<Rightarrow> ModelService \<Rightarrow> ModelService" where
  "reload_runtime_models w s = load_runtime_models w (s\<lparr>runtime_models := []\<rparr>)"

subsection \<open>Sequences of calls\<close>

text \<open>
  A call of the service with the surroundings it runs in; the environment and the
  clock may differ from one call to the next. The reading methods (get, list, search)
  change the object only through the lazy initialisation, which is \<open>Initialize\<close>.
\<close>

datatype operation =
    Register ModelRegistrationRequest
  | Update string ModelUpdateRequest
  | Delete string
  | Reload
  | Initialize

fun apply_operation :: "world \<times> operation \<Rightarrow> ModelService \<Rightarrow> ModelService" where
  "apply_operation (w, Register request) s = snd (register_model w request s)"
| "apply_operation (w, Update mid request) s = snd (update_model w mid request s)"
| "apply_operation (w, Delete mid) s = snd (delete_model w mid s)"
| "apply_operation (w, Reload) s = reload_runtime_models w s"
| "apply_operation (w, Initialize) s = initialize w s"

fun run :: "(world \<times> operation) list \<Rightarrow> ModelService \<Rightarrow> ModelService" where
  "run [] s = s"
| "run (c # calls) s = run calls (apply_operation c s)"

text \<open>No identifier is a key of both dictionaries.\<close>

definition disjoint_registries :: "ModelService \<Rightarrow> bool" where
  "disjoint_registries s =
     (fst ` set (registered_models s) \<inter> fst ` set (runtime_models s) = {})"

text \<open>
  The identifier under which the loop stores a model for one item of the environment,
  \<open>None\<close> when it skips the item: the first component of what \<open>runtime_model\<close> builds.
\<close>

definition runtime_id :: "world \<Rightarrow> string \<Rightarrow> string \<Rightarrow> string option" where
  "runtime_id w env_var env_value =
     (case url_variable env_var of
        None \<Rightarrow> None
      | Some group1 \<Rightarrow> if strip w env_value = [] then None else Some (lower w group1))"

definition runtime_ids :: "world \<Rightarrow> (string \<times> string) list \<Rightarrow> string set" where
  "runtime_ids w items = {k. \<exists>p \<in> set items. runtime_id w (fst p) (snd p) = Some k}"

subsection \<open>Example surroundings\<close>

text \<open>
  An environment that holds the one variable \<^verbatim>\<open>EVAL_HUB_MODEL_GPT4_URL\<close>, and the model
  that the scan builds from it.
\<close>

definition gpt4_world :: world where
  "gpt4_world =
     \<lparr> environ = [(''EVAL_HUB_MODEL_GPT4_URL'', ''http://gpt4'')],
       utcnow = 10,
       scan_utcnow = (\<lambda>_. (1, 2)),
       other_model_types = [],
       unicode_lower = (\<lambda>s. s),
       unicode_upper = (\<lambda>s. s),
       unicode_strip = (\<lambda>s. s) \<rparr>"

definition gpt4_model :: Model where
  "gpt4_model =
     \<lparr> model_id = ''gpt4'',
       model_name = ''Runtime Model GPT4'',
       description = ''Runtime-specified model: Runtime Model GPT4'',
       model_type = OPENAI_COMPATIBLE,
       base_url = ''http://gpt4'',
       api_key_required = True,
       model_path = None,
       capabilities = ModelCapabilities_default,
       config = ModelConfig_default,
       status = ACTIVE,
       tags = [''runtime''],
       created_at = 1,
       updated_at = 2 \<rparr>"

text \<open>An environment with no variable at all.\<close>

definition empty_world :: world where
  "empty_world = \<lparr> environ = [], utcnow = 10, scan_utcnow = (\<lambda>_. (1, 2)), other_model_types = [],
       unicode_lower = (\<lambda>s. s), unicode_upper = (\<lambda>s. s), unicode_strip = (\<lambda>s. s) \<rparr>"

text \<open>
  Requests and services for the examples: a registration of \<^verbatim>\<open>m1\<close>, one of the identifier
  \<^verbatim>\<open>gpt4\<close>, an update that supplies no field, a service initialised from \<open>gpt4_world\<close>, and
  a service built by hand that holds an inactive registered model and an inactive
  runtime model.
\<close>

definition m1_request :: ModelRegistrationRequest where
  "m1_request =
     \<lparr> reg_model_id = ''m1'',
       reg_model_name = ''Model One'',
       reg_description = ''a registered model'',
       reg_model_type = OPENAI_COMPATIBLE,
       reg_base_url = ''http://x'',
       reg_api_key_required = False,
       reg_model_path = None,
       reg_capabilities = None,
       reg_config = None,
       reg_status = ACTIVE,
       reg_tags = [] \<rparr>"

definition gpt4_request :: ModelRegistrationRequest where
  "gpt4_request = m1_request\<lparr>reg_model_id := ''gpt4''\<rparr>"

definition no_update :: ModelUpdateRequest where
  "no_update =
     \<lparr> upd_model_name = None, upd_description = None, upd_model_type = None,
       upd_base_url = None, upd_api_key_required = None, upd_model_path = None,
       upd_capabilities = None, upd_config = None, upd_status = None, upd_tags = None \<rparr>"

definition gpt4_service :: ModelService where
  "gpt4_service =
     \<lparr> registered_models = [], runtime_models = [(''gpt4'', gpt4_model)], initialized = True \<rparr>"

definition m1_model :: Model where
  "m1_model = new_model 10 m1_request"

definition m2_model :: Model where
  "m2_model = m1_model\<lparr>model_id := ''m2'', status := INACTIVE\<rparr>"

definition listing_service :: ModelService where
  "listing_service =
     \<lparr> registered_models = [(''m1'', m1_model), (''m2'', m2_model)],
       runtime_models = [(''gpt4'', gpt4_model\<lparr>status := INACTIVE\<rparr>)],
       initialized = True \<rparr>"

text \<open>The service \<open>gpt4_service\<close> once \<^verbatim>\<open>m1\<close> is registered.\<close>

definition m1_service :: ModelService where
  "m1_service =
     \<lparr> registered_models = [(''m1'', m1_model)],
       runtime_models = [(''gpt4'', gpt4_model)],
       initialized = True \<rparr>"

text \<open>
  The surroundings \<open>gpt4_world\<close> at a later reading of the clock, and an update that
  supplies the base URL only.
\<close>

definition later_world :: world where
  "later_world = gpt4_world\<lparr>utcnow := 20\<rparr>"

definition url_update :: ModelUpdateRequest where
  "url_update = no_update\<lparr>upd_base_url := Some ''http://y''\<rparr>"

text \<open>
  A new service on which \<^verbatim>\<open>reload_runtime_models\<close> was the first call, in \<open>gpt4_world\<close>:
  the runtime models are loaded and the flag \<^verbatim>\<open>_initialized\<close> is still unset. And an
  initialised service with no model at all.
\<close>

definition reloaded_service :: ModelService where
  "reloaded_service =
     \<lparr> registered_models = [], runtime_models = [(''gpt4'', gpt4_model)], initialized = False \<rparr>"

definition initialized_service :: ModelService where
  "initialized_service = \<lparr> registered_models = [], runtime_models = [], initialized = True \<rparr>"

text \<open>
  A sequence of calls in which every reload, at the moment it runs, finds in its
  environment no identifier that is registered.
\<close>

fun reloads_avoid_registered :: "(world \<times> operation) list \<Rightarrow> ModelService \<Rightarrow> bool" where
  "reloads_avoid_registered [] s = True"
| "reloads_avoid_registered ((w, c) # calls) s =
     ((c = Reload \<longrightarrow>
         fst ` set (scan_environ w (environ w) []) \<inter> fst ` set (registered_models s) = {})
      \<and> reloads_avoid_registered calls (apply_operation (w, c) s))"

text \<open>
  What holds of a service as long as no reload has collided: the dictionaries share no
  key, and nothing is registered before the initialisation.
\<close>

definition registered_when_initialized :: "ModelService \<Rightarrow> bool" where
  "registered_when_initialized s =
     (disjoint_registries s \<and> (\<not> initialized s \<longrightarrow> registered_models s = []))"

text \<open>
  An environment with two URL variables whose names differ in case only, and a display
  name for the second; the model that the scan leaves under \<^verbatim>\<open>gpt4\<close>.
\<close>

definition collision_world :: world where
  "collision_world =
     \<lparr> environ = [(''EVAL_HUB_MODEL_GPT4_URL'', ''http://gpt4''),
                  (''EVAL_HUB_MODEL_gpt4_URL'', ''http://other''),
                  (''EVAL_HUB_MODEL_gpt4_NAME'', ''B'')],
       utcnow = 10,
       scan_utcnow = (\<lambda>_. (1, 2)),
       other_model_types = [],
       unicode_lower = (\<lambda>s. s),
       unicode_upper = (\<lambda>s. s),
       unicode_strip = (\<lambda>s. s) \<rparr>"

definition collision_model :: Model where
  "collision_model =
     \<lparr> model_id = ''gpt4'',
       model_name = ''B'',
       description = ''Runtime-specified model: B'',
       model_type = OPENAI_COMPATIBLE,
       base_url = ''http://other'',
       api_key_required = True,
       model_path = None,
       capabilities = ModelCapabilities_default,
       config = ModelConfig_default,
       status = ACTIVE,
       tags = [''runtime''],
       created_at = 1,
       updated_at = 2 \<rparr>"

subsection \<open>The executor of the NeMo Evaluator backend\<close>

text \<open>
  The configuration bag of a backend is a Python dictionary from field names to values of
  any type; the executor keeps the bag and the endpoint it has read from it. The two
  errors of the construction carry the messages that \<^verbatim>\<open>tests/unit/test_nemo_executor.py\<close>
  matches.
\<close>

datatype config_value = StrValue string | BoolValue bool | IntValue int | NoneValue

type_synonym backend_config = "(string \<times> config_value) list"

record NemoEvaluatorExecutor =
  executor_config :: backend_config
  executor_endpoint :: string

definition missing_required_field :: "string \<Rightarrow> error" where
  "missing_required_field field =
     ValueError (''NeMo Evaluator configuration missing required field: '' @ field)"

definition must_be_non_empty :: error where
  "must_be_non_empty = ValueError ''NeMo Evaluator endpoint must be a non-empty string''"

text \<open>
  Modelled from the spec: the constructor of \<^verbatim>\<open>NemoEvaluatorExecutor\<close>
  (\<^verbatim>\<open>eval_hub/executors/nemo.py\<close>), of which only the unit test
  \<^verbatim>\<open>tests/unit/test_nemo_executor.py\<close> is at hand. The specification says that an
  implementation validates its configuration bag at construction: a missing required
  field, the endpoint, fails the construction with an error that names the field, and an
  endpoint that is present but is the empty string fails it with another error, that the
  field must be non-empty. The two messages are the ones that the test matches. The bag
  is a Python dictionary with values of any type; an endpoint that is not a string is
  taken as invalid like the empty string. What the constructor does with the other
  fields of the bag is not described, so the executor built keeps the bag and the
  endpoint only.
\<close>

definition NemoEvaluatorExecutor_init :: "backend_config \<Rightarrow> error + NemoEvaluatorExecutor" where
  "NemoEvaluatorExecutor_init cfg =
     (case map_of cfg ''endpoint'' of
        None \<Rightarrow> Inl (missing_required_field ''endpoint'')
      | Some (StrValue e) \<Rightarrow>
          if e = [] then Inl must_be_non_empty
          else Inr \<lparr> executor_config = cfg, executor_endpoint = e \<rparr>
      | Some _ \<Rightarrow> Inl must_be_non_empty)"

text \<open>The configuration bag of the unit test.\<close>

definition test_backend_config :: backend_config where
  "test_backend_config =
     [(''endpoint'', StrValue ''http://nemo.example.com''),
      (''namespace'', StrValue ''test''),
      (''batch_size'', StrValue ''1''),
      (''log_samples'', BoolValue True),
      (''deploy_crs'', BoolValue False)]"

section \<open>Properties\<close>

subsection \<open>Initialisation and the scan of the environment\<close>

lemma initialize_initialized: "initialized s \<Longrightarrow> initialize w s = s"
  by (simp add: initialize_def)

lemma registered_models_initialize: "registered_models (initialize w s) = registered_models s"
  by (simp add: initialize_def load_runtime_models_def)

lemma initialized_initialize: "initialized (initialize w s)"
  by (simp add: initialize_def)

lemma runtime_models_initialize:
  "runtime_models (initialize w s) =
     (if initialized s then runtime_models s else scan_environ w (environ w) [])"
  by (simp add: initialize_def load_runtime_models_def)

lemma contains_keys: "contains d k \<longleftrightarrow> k \<in> fst ` set d"
  by (simp add: contains_def map_of_eq_None_iff)

lemma set_update_subset: "set (AList.update k v al) \<subseteq> insert (k, v) (set al)"
  by (induction al) auto

lemma runtime_model_None:
  "runtime_model w var val = None \<longleftrightarrow> (url_variable var = None \<or> strip w val = [])"
  by (cases "url_variable var") (simp_all add: runtime_model_def Let_def)

lemma runtime_model_Some:
  assumes "url_variable var = Some g" and "strip w val \<noteq> []"
  shows "runtime_model w var val =
     Some \<lparr> model_id = lower w g,
            model_name = (case getenv w (''EVAL_HUB_MODEL_'' @ g @ ''_NAME'') of
                            None \<Rightarrow> ''Runtime Model '' @ upper w (lower w g) | Some v \<Rightarrow> v),
            description = ''Runtime-specified model: '' @
                          (case getenv w (''EVAL_HUB_MODEL_'' @ g @ ''_NAME'') of
                             None \<Rightarrow> ''Runtime Model '' @ upper w (lower w g) | Some v \<Rightarrow> v),
            model_type = (case ModelType_of w
                                 (lower w (case getenv w (''EVAL_HUB_MODEL_'' @ g @ ''_TYPE'') of
                                           None \<Rightarrow> ''openai-compatible'' | Some v \<Rightarrow> v)) of
                            None \<Rightarrow> OPENAI_COMPATIBLE | Some t \<Rightarrow> t),
            base_url = strip w val,
            api_key_required = True,
            model_path = getenv w (''EVAL_HUB_MODEL_'' @ g @ ''_PATH''),
            capabilities = ModelCapabilities_default,
            config = ModelConfig_default,
            status = ACTIVE,
            tags = [''runtime''],
            created_at = fst (scan_utcnow w var),
            updated_at = snd (scan_utcnow w var) \<rparr>"
  using assms by (simp add: runtime_model_def Let_def)

lemma runtime_model_SomeD:
  assumes "runtime_model w var val = Some m"
  shows "\<exists>g. url_variable var = Some g \<and> strip w val \<noteq> [] \<and> model_id m = lower w g
           \<and> status m = ACTIVE \<and> tags m = [''runtime'']"
proof -
  from assms have "runtime_model w var val \<noteq> None" by simp
  then obtain g where g: "url_variable var = Some g" "strip w val \<noteq> []"
    by (auto simp: runtime_model_None)
  from runtime_model_Some [OF g] assms have "model_id m = lower w g" "status m = ACTIVE" "tags m = [''runtime'']"
    by auto
  with g show ?thesis by blast
qed

lemma runtime_model_active:
  "runtime_model w var val = Some m \<Longrightarrow> status m = ACTIVE \<and> tags m = [''runtime'']"
  using runtime_model_SomeD by blast

lemma model_id_runtime_model:
  "map_option model_id (runtime_model w var val) = runtime_id w var val"
proof (cases "url_variable var")
  case None
  then show ?thesis by (simp add: runtime_model_def runtime_id_def)
next
  case (Some g)
  show ?thesis
  proof (cases "strip w val = []")
    case True
    with Some show ?thesis by (simp add: runtime_model_def runtime_id_def Let_def)
  next
    case False
    from runtime_model_Some [OF Some False] Some False show ?thesis
      by (simp add: runtime_id_def)
  qed
qed

lemma scan_environ_active:
  "\<forall>p \<in> set acc. status (snd p) = ACTIVE \<and> tags (snd p) = [''runtime''] \<Longrightarrow>
   \<forall>p \<in> set (scan_environ w items acc). status (snd p) = ACTIVE \<and> tags (snd p) = [''runtime'']"
proof (induction items arbitrary: acc)
  case Nil
  then show ?case by simp
next
  case (Cons item items)
  obtain var val where item: "item = (var, val)" by (cases item)
  show ?case
  proof (cases "runtime_model w var val")
    case None
    then have "scan_environ w (item # items) acc = scan_environ w items acc"
      by (simp add: item)
    with Cons.IH [OF Cons.prems] show ?thesis by (simp only:)
  next
    case (Some m)
    have *: "\<forall>p \<in> set (AList.update (model_id m) m acc). status (snd p) = ACTIVE \<and> tags (snd p) = [''runtime'']"
    proof
      fix p assume "p \<in> set (AList.update (model_id m) m acc)"
      with set_update_subset [of "model_id m" m acc] have "p = (model_id m, m) \<or> p \<in> set acc"
        by blast
      with Cons.prems runtime_model_active [OF Some]
      show "status (snd p) = ACTIVE \<and> tags (snd p) = [''runtime'']" by fastforce
    qed
    have "scan_environ w (item # items) acc = scan_environ w items (AList.update (model_id m) m acc)"
      using Some by (simp add: item)
    with Cons.IH [OF *] show ?thesis by (simp only:)
  qed
qed

lemma runtime_ids_Nil: "runtime_ids w [] = {}"
  by (simp add: runtime_ids_def)

lemma runtime_ids_Cons:
  "runtime_ids w ((var, val) # items) =
     (case runtime_id w var val of None \<Rightarrow> {} | Some k \<Rightarrow> {k}) \<union> runtime_ids w items"
  by (auto simp: runtime_ids_def split: option.splits)

lemma keys_update: "fst ` set (AList.update k v al) = insert k (fst ` set al)"
proof -
  have "set (map fst (AList.update k v al)) = insert k (set (map fst al))"
    by (auto simp: AList.update_keys)
  then show ?thesis by simp
qed

lemma keys_scan_environ:
  "fst ` set (scan_environ w items acc) = fst ` set acc \<union> runtime_ids w items"
proof (induction items arbitrary: acc)
  case Nil
  then show ?case by (simp add: runtime_ids_Nil)
next
  case (Cons item items)
  obtain var val where item: "item = (var, val)" by (cases item)
  show ?case
  proof (cases "runtime_model w var val")
    case None
    with model_id_runtime_model [of w var val] have "runtime_id w var val = None" by simp
    then have "runtime_ids w (item # items) = runtime_ids w items"
      unfolding item runtime_ids_Cons by simp
    with Cons None item show ?thesis by simp
  next
    case (Some m)
    with model_id_runtime_model [of w var val] have "runtime_id w var val = Some (model_id m)" by simp
    then have "runtime_ids w (item # items) = insert (model_id m) (runtime_ids w items)"
      unfolding item runtime_ids_Cons by simp
    with Cons.IH [of "AList.update (model_id m) m acc"] Some item show ?thesis
      by (simp add: keys_update)
  qed
qed

subsection \<open>The name of a URL variable\<close>

lemma re_group_found:
  assumes "g \<noteq> []" and "CHR 0x0A \<notin> set g"
  shows "re_group (g @ ''_URL'') (length g) = Some g"
proof -
  from assms(1) obtain n where n: "length g = Suc n" by (cases g) auto
  have t: "take (Suc n) (g @ ''_URL'') = g" using n by simp
  have d: "drop (Suc n) (g @ ''_URL'') = ''_URL''" using n by simp
  have "re_group (g @ ''_URL'') (Suc n) = Some g"
    unfolding re_group.simps t d using assms(2) by simp
  then show ?thesis by (simp only: n)
qed

lemma url_variable_name:
  assumes "g \<noteq> []" and "CHR 0x0A \<notin> set g"
  shows "url_variable (''EVAL_HUB_MODEL_'' @ g @ ''_URL'') = Some g"
proof -
  have "re_match (''EVAL_HUB_MODEL_'' @ g @ ''_URL'') = re_group (g @ ''_URL'') (length g)"
    by (simp add: re_match_def startswith_def)
  with re_group_found [OF assms] have "re_match (''EVAL_HUB_MODEL_'' @ g @ ''_URL'') = Some g"
    by simp
  then show ?thesis by (simp add: url_variable_def startswith_def endswith_def)
qed

lemma url_variable_gpt4: "url_variable ''EVAL_HUB_MODEL_GPT4_URL'' = Some ''GPT4''"
  using url_variable_name [of "''GPT4''"] by simp

lemma lower_gpt4: "lower gpt4_world ''GPT4'' = ''gpt4''"
  by (simp add: lower_def is_ascii_def lower_char_def)

lemma upper_gpt4: "upper gpt4_world ''gpt4'' = ''GPT4''"
  by (simp add: upper_def is_ascii_def upper_char_def)

lemma strip_gpt4: "strip gpt4_world ''http://gpt4'' = ''http://gpt4''"
  by (simp add: strip_def is_ascii_def isspace_def)

lemma lower_openai: "lower w ''openai-compatible'' = ''openai-compatible''"
  by (simp add: lower_def is_ascii_def lower_char_def)

lemma runtime_model_gpt4:
  "runtime_model gpt4_world ''EVAL_HUB_MODEL_GPT4_URL'' ''http://gpt4'' = Some gpt4_model"
proof -
  have s: "strip gpt4_world ''http://gpt4'' \<noteq> []" by (simp add: strip_gpt4)
  have e: "getenv gpt4_world ''EVAL_HUB_MODEL_GPT4_NAME'' = None"
    "getenv gpt4_world ''EVAL_HUB_MODEL_GPT4_TYPE'' = None"
    "getenv gpt4_world ''EVAL_HUB_MODEL_GPT4_PATH'' = None"
    by (simp_all add: getenv_def gpt4_world_def)
  have t: "ModelType_of gpt4_world ''openai-compatible'' = Some OPENAI_COMPATIBLE"
    by (simp add: ModelType_of_def)
  have c: "scan_utcnow gpt4_world ''EVAL_HUB_MODEL_GPT4_URL'' = (1, 2)"
    by (simp add: gpt4_world_def)
  show ?thesis
    unfolding runtime_model_Some [OF url_variable_gpt4 s]
    by (simp add: lower_gpt4 upper_gpt4 strip_gpt4 lower_openai e t c gpt4_model_def)
qed

lemma scan_gpt4: "scan_environ gpt4_world (environ gpt4_world) [] = [(''gpt4'', gpt4_model)]"
proof -
  have "environ gpt4_world = [(''EVAL_HUB_MODEL_GPT4_URL'', ''http://gpt4'')]"
    by (simp add: gpt4_world_def)
  then show ?thesis by (simp add: runtime_model_gpt4 gpt4_model_def)
qed

subsection \<open>What the operations do to the runtime dictionary\<close>

lemma runtime_models_register:
  "runtime_models (snd (register_model w request s)) = runtime_models (initialize w s)"
  by (simp add: register_model_def Let_def)

lemma runtime_models_update:
  "runtime_models (snd (update_model w mid request s)) = runtime_models (initialize w s)"
  by (simp add: update_model_def Let_def split: option.split)

lemma runtime_models_delete:
  "runtime_models (snd (delete_model w mid s)) = runtime_models (initialize w s)"
  by (simp add: delete_model_def Let_def)

lemma runtime_models_reload:
  "runtime_models (reload_runtime_models w s) = scan_environ w (environ w) []"
  by (simp add: reload_runtime_models_def load_runtime_models_def)

lemma registered_models_reload:
  "registered_models (reload_runtime_models w s) = registered_models s"
  by (simp add: reload_runtime_models_def load_runtime_models_def)

lemma initialized_reload:
  "initialized (reload_runtime_models w s) = initialized s"
  by (simp add: reload_runtime_models_def load_runtime_models_def)

lemma runtime_models_apply_operation:
  "runtime_models (apply_operation (w, c) s) = runtime_models s
   \<or> runtime_models (apply_operation (w, c) s) = scan_environ w (environ w) []"
  by (cases c)
     (simp_all add: runtime_models_register runtime_models_update runtime_models_delete
        runtime_models_reload runtime_models_initialize)

lemma runtime_models_run:
  "runtime_models (run calls s) = runtime_models s
   \<or> (\<exists>w. runtime_models (run calls s) = scan_environ w (environ w) [])"
proof (induction calls arbitrary: s)
  case Nil
  then show ?case by simp
next
  case (Cons c calls)
  obtain w x where c: "c = (w, x)" by (cases c)
  from Cons.IH [of "apply_operation c s"] runtime_models_apply_operation [of w x s]
  show ?case unfolding c run.simps by metis
qed

lemma scan_environ_runtime_sourced:
  "\<forall>p \<in> set (scan_environ w items []). status (snd p) = ACTIVE \<and> tags (snd p) = [''runtime'']"
  by (rule scan_environ_active) simp

subsection \<open>The runtime models are active and tagged\<close>

text \<open>
  Claim C10. Every model that the scan of the environment puts into the runtime
  dictionary, at initialisation or at a reload, has the status \<^verbatim>\<open>ACTIVE\<close> and the tag list
  \<^verbatim>\<open>["runtime"]\<close>; so after any sequence of calls on a new service the runtime dictionary
  holds no entry that is not active.
\<close>

theorem runtime_models_always_active:
  "(\<forall>p \<in> set (runtime_models (load_runtime_models w s)).
      status (snd p) = ACTIVE \<and> tags (snd p) = [''runtime''])
   \<and> (\<forall>p \<in> set (runtime_models (run calls ModelService_init)).
      status (snd p) = ACTIVE \<and> tags (snd p) = [''runtime''])"
proof
  have "runtime_models (load_runtime_models w s) = scan_environ w (environ w) []"
    by (simp add: load_runtime_models_def)
  with scan_environ_runtime_sourced [of w "environ w"]
  show "\<forall>p \<in> set (runtime_models (load_runtime_models w s)).
      status (snd p) = ACTIVE \<and> tags (snd p) = [''runtime'']"
    by (simp only:)
next
  from runtime_models_run [of calls ModelService_init]
  show "\<forall>p \<in> set (runtime_models (run calls ModelService_init)).
      status (snd p) = ACTIVE \<and> tags (snd p) = [''runtime'']"
  proof
    assume "runtime_models (run calls ModelService_init) = runtime_models ModelService_init"
    then have "runtime_models (run calls ModelService_init) = []"
      by (simp add: ModelService_init_def)
    then show ?thesis by simp
  next
    assume "\<exists>w. runtime_models (run calls ModelService_init) = scan_environ w (environ w) []"
    then obtain w' where "runtime_models (run calls ModelService_init) = scan_environ w' (environ w') []"
      by blast
    with scan_environ_runtime_sourced [of w' "environ w'"] show ?thesis by (simp only:)
  qed
qed

lemma run_initialize_gpt4:
  "runtime_models (run [(gpt4_world, Initialize)] ModelService_init) = [(''gpt4'', gpt4_model)]"
  by (simp add: runtime_models_initialize ModelService_init_def scan_gpt4)

theorem runtime_models_always_active_witness:
  "(''gpt4'', gpt4_model) \<in> set (runtime_models (run [(gpt4_world, Initialize)] ModelService_init))
   \<and> status gpt4_model = ACTIVE \<and> tags gpt4_model = [''runtime'']"
proof -
  have m: "(''gpt4'', gpt4_model) \<in> set (runtime_models (run [(gpt4_world, Initialize)] ModelService_init))"
    by (simp only: run_initialize_gpt4) simp
  from runtime_models_always_active [of gpt4_world ModelService_init "[(gpt4_world, Initialize)]"]
  have "\<forall>p \<in> set (runtime_models (run [(gpt4_world, Initialize)] ModelService_init)).
      status (snd p) = ACTIVE \<and> tags (snd p) = [''runtime'']" by (rule conjunct2)
  from bspec [OF this m] m show ?thesis by simp
qed

subsection \<open>Reloading\<close>

text \<open>
  Claim C4. \<^verbatim>\<open>reload_runtime_models\<close> replaces the runtime dictionary by the one built from
  the environment as it is now: the result does not depend on the dictionary before, its
  keys are the identifiers of the variables of this environment and no others, and the
  registered models are as they were.
\<close>

theorem reload_replaces_runtime_models:
  "runtime_models (reload_runtime_models w s) = scan_environ w (environ w) []
   \<and> fst ` set (runtime_models (reload_runtime_models w s)) = runtime_ids w (environ w)
   \<and> registered_models (reload_runtime_models w s) = registered_models s"
  by (simp add: runtime_models_reload registered_models_reload keys_scan_environ)

theorem reload_replaces_runtime_models_witness:
  "runtime_models (reload_runtime_models gpt4_world ModelService_init) = [(''gpt4'', gpt4_model)]
   \<and> runtime_models (reload_runtime_models empty_world
        (reload_runtime_models gpt4_world ModelService_init)) = []
   \<and> registered_models (reload_runtime_models empty_world
        (reload_runtime_models gpt4_world ModelService_init)) = []"
  using reload_replaces_runtime_models [of gpt4_world ModelService_init]
    reload_replaces_runtime_models [of empty_world "reload_runtime_models gpt4_world ModelService_init"]
  by (simp add: scan_gpt4 empty_world_def ModelService_init_def)

subsection \<open>Listing\<close>

lemma registered_summaries_filter:
  "registered_summaries b ms = map summary_of (filter (\<lambda>m. b \<or> status m = ACTIVE) ms)"
  by (induction ms) auto

lemma runtime_summaries_map: "runtime_summaries ms = map summary_of ms"
  by (induction ms) simp_all

lemma sum_status_summary_of: "sum_status (summary_of m) = status m"
  by (simp add: summary_of_def)

lemma get_all_models_after_initialize:
  "models (fst (get_all_models w False s)) =
     map summary_of (filter (\<lambda>m. status m = ACTIVE) (map snd (registered_models (initialize w s))))
     @ map summary_of (map snd (runtime_models (initialize w s)))
   \<and> (\<forall>x \<in> set (registered_summaries False (map snd (registered_models (initialize w s)))).
        sum_status x = ACTIVE)
   \<and> (\<forall>p \<in> set (runtime_models (initialize w s)).
        summary_of (snd p) \<in> set (models (fst (get_all_models w False s))))
   \<and> total_models (fst (get_all_models w False s)) = length (models (fst (get_all_models w False s)))
   \<and> resp_runtime_models (fst (get_all_models w False s)) =
        map summary_of (map snd (runtime_models (initialize w s)))
   \<and> snd (get_all_models w False s) = initialize w s"
  by (simp add: get_all_models_def Let_def registered_summaries_filter runtime_summaries_map
        sum_status_summary_of)

subsection \<open>Register, update and delete\<close>

lemma update_absent_key: "k \<notin> fst ` set al \<Longrightarrow> AList.update k v al = al @ [(k, v)]"
  by (induction al) auto

lemma delete_present_key: "k \<in> fst ` set al \<Longrightarrow> AList.delete k al \<noteq> al"
  using AList.delete_notin_dom [of k al] by metis

lemma protected_after_initialize:
  assumes "contains (runtime_models (initialize w s)) mid" and "reg_model_id request = mid"
  shows "register_model w request s =
           (Inl (if contains (registered_models (initialize w s)) mid
                 then already_exists mid else specified_as_runtime mid), initialize w s)
         \<and> update_model w mid update s = (Inl cannot_update, initialize w s)
         \<and> delete_model w mid s = (Inl cannot_delete, initialize w s)
         \<and> registered_models (initialize w s) = registered_models s
         \<and> (initialized s \<longrightarrow> initialize w s = s)"
  using assms
  by (simp add: register_model_def update_model_def delete_model_def Let_def
        registered_models_initialize initialize_initialized)

lemma register_model_conflict:
  assumes "contains (registered_models (initialize w s)) (reg_model_id request)
           \<or> contains (runtime_models (initialize w s)) (reg_model_id request)"
  shows "register_model w request s =
           (Inl (if contains (registered_models (initialize w s)) (reg_model_id request)
                 then already_exists (reg_model_id request)
                 else specified_as_runtime (reg_model_id request)), initialize w s)"
  using assms by (auto simp: register_model_def Let_def)

lemma register_model_new:
  assumes "\<not> contains (registered_models (initialize w s)) (reg_model_id request)"
    and "\<not> contains (runtime_models (initialize w s)) (reg_model_id request)"
  shows "register_model w request s =
           (Inr (new_model (utcnow w) request),
            (initialize w s)\<lparr>registered_models :=
               registered_models (initialize w s)
               @ [(reg_model_id request, new_model (utcnow w) request)]\<rparr>)"
proof -
  from assms(1) have "reg_model_id request \<notin> fst ` set (registered_models (initialize w s))"
    by (simp add: contains_keys)
  then have "AList.update (reg_model_id request) (new_model (utcnow w) request)
               (registered_models (initialize w s))
             = registered_models (initialize w s)
               @ [(reg_model_id request, new_model (utcnow w) request)]"
    by (rule update_absent_key)
  with assms show ?thesis by (simp add: register_model_def Let_def)
qed

lemma new_model_times:
  "created_at (new_model now request) = now \<and> updated_at (new_model now request) = now"
  by (simp add: new_model_def)

lemma update_model_absent:
  assumes "\<not> contains (registered_models (initialize w s)) mid"
    and "\<not> contains (runtime_models (initialize w s)) mid"
  shows "update_model w mid request s = (Inr None, initialize w s)"
  using assms by (simp add: update_model_def Let_def contains_def)

lemma delete_model_result:
  assumes "\<not> contains (runtime_models (initialize w s)) mid"
  shows "delete_model w mid s =
           (Inr (contains (registered_models (initialize w s)) mid),
            (initialize w s)\<lparr>registered_models :=
               AList.delete mid (registered_models (initialize w s))\<rparr>)"
proof (cases "contains (registered_models (initialize w s)) mid")
  case True
  with assms show ?thesis by (simp add: delete_model_def Let_def)
next
  case False
  then have "AList.delete mid (registered_models (initialize w s)) = registered_models (initialize w s)"
    by (simp add: contains_keys)
  with assms False show ?thesis by (simp add: delete_model_def Let_def)
qed

lemma delete_changes_iff:
  "contains al mid \<longleftrightarrow> AList.delete mid al \<noteq> al"
proof
  assume "contains al mid"
  then show "AList.delete mid al \<noteq> al" by (simp add: contains_keys delete_present_key)
next
  assume "AList.delete mid al \<noteq> al"
  then show "contains al mid" unfolding contains_keys using AList.delete_id by metis
qed

lemma results_after_initialize:
  "(contains (registered_models (initialize w s)) (reg_model_id request)
      \<or> contains (runtime_models (initialize w s)) (reg_model_id request)
    \<longrightarrow> register_model w request s =
           (Inl (if contains (registered_models (initialize w s)) (reg_model_id request)
                 then already_exists (reg_model_id request)
                 else specified_as_runtime (reg_model_id request)), initialize w s))
   \<and> (\<not> contains (registered_models (initialize w s)) (reg_model_id request)
      \<and> \<not> contains (runtime_models (initialize w s)) (reg_model_id request)
    \<longrightarrow> register_model w request s =
           (Inr (new_model (utcnow w) request),
            (initialize w s)\<lparr>registered_models :=
               registered_models (initialize w s)
               @ [(reg_model_id request, new_model (utcnow w) request)]\<rparr>)
        \<and> created_at (new_model (utcnow w) request) = utcnow w
        \<and> updated_at (new_model (utcnow w) request) = utcnow w
        \<and> map_of (registered_models (snd (register_model w request s))) (reg_model_id request)
            = Some (new_model (utcnow w) request))
   \<and> (\<not> contains (registered_models (initialize w s)) mid
      \<and> \<not> contains (runtime_models (initialize w s)) mid
    \<longrightarrow> update_model w mid update s = (Inr None, initialize w s))
   \<and> (\<not> contains (runtime_models (initialize w s)) mid
    \<longrightarrow> delete_model w mid s =
           (Inr (contains (registered_models (initialize w s)) mid),
            (initialize w s)\<lparr>registered_models :=
               AList.delete mid (registered_models (initialize w s))\<rparr>)
        \<and> (contains (registered_models (initialize w s)) mid
             \<longleftrightarrow> registered_models (snd (delete_model w mid s))
                   \<noteq> registered_models (initialize w s)))"
proof (intro conjI impI)
  assume "contains (registered_models (initialize w s)) (reg_model_id request)
      \<or> contains (runtime_models (initialize w s)) (reg_model_id request)"
  then show "register_model w request s =
           (Inl (if contains (registered_models (initialize w s)) (reg_model_id request)
                 then already_exists (reg_model_id request)
                 else specified_as_runtime (reg_model_id request)), initialize w s)"
    by (rule register_model_conflict)
next
  assume a: "\<not> contains (registered_models (initialize w s)) (reg_model_id request)
      \<and> \<not> contains (runtime_models (initialize w s)) (reg_model_id request)"
  then have r: "register_model w request s =
           (Inr (new_model (utcnow w) request),
            (initialize w s)\<lparr>registered_models :=
               registered_models (initialize w s)
               @ [(reg_model_id request, new_model (utcnow w) request)]\<rparr>)"
    by (simp add: register_model_new)
  show "register_model w request s =
           (Inr (new_model (utcnow w) request),
            (initialize w s)\<lparr>registered_models :=
               registered_models (initialize w s)
               @ [(reg_model_id request, new_model (utcnow w) request)]\<rparr>)"
    by (rule r)
  show "created_at (new_model (utcnow w) request) = utcnow w"
    by (simp add: new_model_times)
  show "updated_at (new_model (utcnow w) request) = utcnow w"
    by (simp add: new_model_times)
  from a have "map_of (registered_models (initialize w s)) (reg_model_id request) = None"
    by (simp add: contains_def)
  then show "map_of (registered_models (snd (register_model w request s))) (reg_model_id request)
            = Some (new_model (utcnow w) request)"
    unfolding r by (simp add: map_add_def)
next
  assume "\<not> contains (registered_models (initialize w s)) mid
      \<and> \<not> contains (runtime_models (initialize w s)) mid"
  then show "update_model w mid update s = (Inr None, initialize w s)"
    by (simp add: update_model_absent)
next
  assume a: "\<not> contains (runtime_models (initialize w s)) mid"
  show d: "delete_model w mid s =
           (Inr (contains (registered_models (initialize w s)) mid),
            (initialize w s)\<lparr>registered_models :=
               AList.delete mid (registered_models (initialize w s))\<rparr>)"
    by (rule delete_model_result [OF a])
  show "contains (registered_models (initialize w s)) mid
             \<longleftrightarrow> registered_models (snd (delete_model w mid s))
                   \<noteq> registered_models (initialize w s)"
    unfolding d using delete_changes_iff [of "registered_models (initialize w s)" mid] by simp
qed

subsection \<open>Updating\<close>

lemma if_not_None_keeps:
  assumes "\<And>v m. sel (assign v m) = sel m"
  shows "sel (if_not_None x assign model) = sel model"
  by (cases x) (simp_all add: if_not_None_def assms)

lemma if_not_None_sets:
  assumes "\<And>v m. sel (assign v m) = g v"
  shows "sel (if_not_None x assign model) = (case x of None \<Rightarrow> sel model | Some v \<Rightarrow> g v)"
  by (cases x) (simp_all add: if_not_None_def assms)

lemma apply_update_model_name:
  "model_name (apply_update now request m) =
     (case upd_model_name request of None \<Rightarrow> model_name m | Some v \<Rightarrow> v)"
  unfolding apply_update_def Let_def
  by (simp add: if_not_None_keeps [where sel = model_name]
        if_not_None_sets [where sel = model_name and g = "\<lambda>v. v"] cong: option.case_cong)

lemma apply_update_description:
  "description (apply_update now request m) =
     (case upd_description request of None \<Rightarrow> description m | Some v \<Rightarrow> v)"
  unfolding apply_update_def Let_def
  by (simp add: if_not_None_keeps [where sel = description]
        if_not_None_sets [where sel = description and g = "\<lambda>v. v"] cong: option.case_cong)

lemma apply_update_model_type:
  "model_type (apply_update now request m) =
     (case upd_model_type request of None \<Rightarrow> model_type m | Some v \<Rightarrow> v)"
  unfolding apply_update_def Let_def
  by (simp add: if_not_None_keeps [where sel = model_type]
        if_not_None_sets [where sel = model_type and g = "\<lambda>v. v"] cong: option.case_cong)

lemma apply_update_base_url:
  "base_url (apply_update now request m) =
     (case upd_base_url request of None \<Rightarrow> base_url m | Some v \<Rightarrow> v)"
  unfolding apply_update_def Let_def
  by (simp add: if_not_None_keeps [where sel = base_url]
        if_not_None_sets [where sel = base_url and g = "\<lambda>v. v"] cong: option.case_cong)

lemma apply_update_api_key_required:
  "api_key_required (apply_update now request m) =
     (case upd_api_key_required request of None \<Rightarrow> api_key_required m | Some v \<Rightarrow> v)"
  unfolding apply_update_def Let_def
  by (simp add: if_not_None_keeps [where sel = api_key_required]
        if_not_None_sets [where sel = api_key_required and g = "\<lambda>v. v"] cong: option.case_cong)

lemma apply_update_model_path:
  "model_path (apply_update now request m) =
     (case upd_model_path request of None \<Rightarrow> model_path m | Some v \<Rightarrow> Some v)"
  unfolding apply_update_def Let_def
  by (simp add: if_not_None_keeps [where sel = model_path]
        if_not_None_sets [where sel = model_path and g = Some] cong: option.case_cong)

lemma apply_update_capabilities:
  "capabilities (apply_update now request m) =
     (case upd_capabilities request of None \<Rightarrow> capabilities m | Some v \<Rightarrow> v)"
  unfolding apply_update_def Let_def
  by (simp add: if_not_None_keeps [where sel = capabilities]
        if_not_None_sets [where sel = capabilities and g = "\<lambda>v. v"] cong: option.case_cong)

lemma apply_update_config:
  "config (apply_update now request m) =
     (case upd_config request of None \<Rightarrow> config m | Some v \<Rightarrow> v)"
  unfolding apply_update_def Let_def
  by (simp add: if_not_None_keeps [where sel = config]
        if_not_None_sets [where sel = config and g = "\<lambda>v. v"] cong: option.case_cong)

lemma apply_update_status:
  "status (apply_update now request m) =
     (case upd_status request of None \<Rightarrow> status m | Some v \<Rightarrow> v)"
  unfolding apply_update_def Let_def
  by (simp add: if_not_None_keeps [where sel = status]
        if_not_None_sets [where sel = status and g = "\<lambda>v. v"] cong: option.case_cong)

lemma apply_update_tags:
  "tags (apply_update now request m) =
     (case upd_tags request of None \<Rightarrow> tags m | Some v \<Rightarrow> v)"
  unfolding apply_update_def Let_def
  by (simp add: if_not_None_keeps [where sel = tags]
        if_not_None_sets [where sel = tags and g = "\<lambda>v. v"] cong: option.case_cong)

lemma apply_update_model_id: "model_id (apply_update now request m) = model_id m"
  unfolding apply_update_def Let_def
  by (simp add: if_not_None_keeps [where sel = model_id])

lemma apply_update_created_at: "created_at (apply_update now request m) = created_at m"
  unfolding apply_update_def Let_def
  by (simp add: if_not_None_keeps [where sel = created_at])

lemma apply_update_updated_at: "updated_at (apply_update now request m) = now"
  unfolding apply_update_def Let_def by simp

lemma update_model_present:
  assumes "map_of (registered_models (initialize w s)) mid = Some m"
    and "\<not> contains (runtime_models (initialize w s)) mid"
  shows "update_model w mid request s =
           (Inr (Some (apply_update (utcnow w) request m)),
            (initialize w s)\<lparr>registered_models :=
               AList.update mid (apply_update (utcnow w) request m)
                 (registered_models (initialize w s))\<rparr>)"
  using assms by (simp add: update_model_def Let_def)

lemma keys_update_present:
  "map_of al k = Some v \<Longrightarrow> map fst (AList.update k v' al) = map fst al"
proof -
  assume "map_of al k = Some v"
  then have "k \<in> set (map fst al)" by (metis map_of_eq_None_iff option.distinct(1) set_map)
  then show ?thesis by (simp add: AList.update_keys)
qed

lemma m1_model_fields:
  "model_id m1_model = ''m1''" "model_name m1_model = ''Model One''"
  "base_url m1_model = ''http://x''" "status m1_model = ACTIVE"
  "created_at m1_model = 10" "updated_at m1_model = 10"
  by (simp_all add: m1_model_def new_model_def m1_request_def)

text \<open>
  Claim C3, as amended. For a model of the registered dictionary whose identifier is not
  a key of the runtime dictionary, \<^verbatim>\<open>update_model\<close> returns the stored model with each
  field that the request supplies set to the supplied value and every other field as it
  was, the identifier and the time of creation included; the entry keeps its place and
  no other entry of either dictionary changes. The time of update becomes the reading of
  the clock: it is later than before when that reading is later than the stored time,
  which the code does not check.
\<close>

theorem update_changes_supplied_fields:
  assumes "map_of (registered_models (initialize w s)) mid = Some m"
    and "\<not> contains (runtime_models (initialize w s)) mid"
  shows "\<exists>m'. update_model w mid request s =
           (Inr (Some m'),
            (initialize w s)\<lparr>registered_models :=
               AList.update mid m' (registered_models (initialize w s))\<rparr>)
     \<and> model_name m' = (case upd_model_name request of None \<Rightarrow> model_name m | Some v \<Rightarrow> v)
     \<and> description m' = (case upd_description request of None \<Rightarrow> description m | Some v \<Rightarrow> v)
     \<and> model_type m' = (case upd_model_type request of None \<Rightarrow> model_type m | Some v \<Rightarrow> v)
     \<and> base_url m' = (case upd_base_url request of None \<Rightarrow> base_url m | Some v \<Rightarrow> v)
     \<and> api_key_required m' =
         (case upd_api_key_required request of None \<Rightarrow> api_key_required m | Some v \<Rightarrow> v)
     \<and> model_path m' = (case upd_model_path request of None \<Rightarrow> model_path m | Some v \<Rightarrow> Some v)
     \<and> capabilities m' =
         (case upd_capabilities request of None \<Rightarrow> capabilities m | Some v \<Rightarrow> v)
     \<and> config m' = (case upd_config request of None \<Rightarrow> config m | Some v \<Rightarrow> v)
     \<and> status m' = (case upd_status request of None \<Rightarrow> status m | Some v \<Rightarrow> v)
     \<and> tags m' = (case upd_tags request of None \<Rightarrow> tags m | Some v \<Rightarrow> v)
     \<and> model_id m' = model_id m
     \<and> created_at m' = created_at m
     \<and> updated_at m' = utcnow w
     \<and> (updated_at m < utcnow w \<longrightarrow> updated_at m < updated_at m')
     \<and> map_of (registered_models (snd (update_model w mid request s))) =
         (map_of (registered_models (initialize w s)))(mid \<mapsto> m')
     \<and> map fst (registered_models (snd (update_model w mid request s))) =
         map fst (registered_models (initialize w s))
     \<and> runtime_models (snd (update_model w mid request s)) = runtime_models (initialize w s)"
proof (intro exI conjI)
  show u: "update_model w mid request s =
           (Inr (Some (apply_update (utcnow w) request m)),
            (initialize w s)\<lparr>registered_models :=
               AList.update mid (apply_update (utcnow w) request m)
                 (registered_models (initialize w s))\<rparr>)"
    by (rule update_model_present [OF assms])
  show "map_of (registered_models (snd (update_model w mid request s))) =
         (map_of (registered_models (initialize w s)))(mid \<mapsto> apply_update (utcnow w) request m)"
    unfolding u by (simp add: AList.update_conv')
  show "map fst (registered_models (snd (update_model w mid request s))) =
         map fst (registered_models (initialize w s))"
    unfolding u using keys_update_present [OF assms(1)] by simp
  show "runtime_models (snd (update_model w mid request s)) = runtime_models (initialize w s)"
    by (rule runtime_models_update)
  show "updated_at m < utcnow w \<longrightarrow> updated_at m < updated_at (apply_update (utcnow w) request m)"
    by (simp add: apply_update_updated_at)
qed (simp_all only: apply_update_model_name apply_update_description apply_update_model_type
       apply_update_base_url apply_update_api_key_required apply_update_model_path
       apply_update_capabilities apply_update_config apply_update_status apply_update_tags
       apply_update_model_id apply_update_created_at apply_update_updated_at)

theorem update_changes_supplied_fields_witness:
  "fst (update_model later_world ''m1'' url_update m1_service) =
     Inr (Some (m1_model\<lparr>base_url := ''http://y'', updated_at := 20\<rparr>))
   \<and> updated_at m1_model < updated_at (m1_model\<lparr>base_url := ''http://y'', updated_at := 20\<rparr>)"
proof -
  have i: "initialize later_world m1_service = m1_service"
    by (simp add: initialize_def m1_service_def)
  have a: "map_of (registered_models (initialize later_world m1_service)) ''m1'' = Some m1_model"
    unfolding i by (simp add: m1_service_def)
  have b: "\<not> contains (runtime_models (initialize later_world m1_service)) ''m1''"
    unfolding i by (simp add: m1_service_def contains_def)
  have w: "utcnow later_world = 20" by (simp add: later_world_def)
  from update_changes_supplied_fields [OF a b, of url_update]
  obtain m' where m': "fst (update_model later_world ''m1'' url_update m1_service) = Inr (Some m')"
    "model_name m' = model_name m1_model" "description m' = description m1_model"
    "model_type m' = model_type m1_model" "base_url m' = ''http://y''"
    "api_key_required m' = api_key_required m1_model" "model_path m' = model_path m1_model"
    "capabilities m' = capabilities m1_model" "config m' = config m1_model"
    "status m' = status m1_model" "tags m' = tags m1_model" "model_id m' = model_id m1_model"
    "created_at m' = created_at m1_model" "updated_at m' = 20"
    "updated_at m1_model < 20 \<longrightarrow> updated_at m1_model < updated_at m'"
    unfolding w by (auto simp: url_update_def no_update_def)
  have "m' = m1_model\<lparr>base_url := ''http://y'', updated_at := 20\<rparr>"
    using m'(2-14) by (intro Model.equality) simp_all
  with m'(1,15) show ?thesis by (simp add: m1_model_fields)
qed

text \<open>
  The time of update does not always increase: \<^verbatim>\<open>m1\<close> registered at the reading 10 and
  updated at the same reading keeps the time 10.
\<close>

theorem update_same_reading_counterexample:
  "map_of (registered_models m1_service) ''m1'' = Some m1_model
   \<and> updated_at m1_model = 10
   \<and> utcnow gpt4_world = 10
   \<and> fst (update_model gpt4_world ''m1'' no_update m1_service) = Inr (Some m1_model)
   \<and> map_of (registered_models (snd (update_model gpt4_world ''m1'' no_update m1_service))) ''m1''
       = Some m1_model
   \<and> \<not> updated_at m1_model < updated_at m1_model"
proof -
  have i: "initialize gpt4_world m1_service = m1_service"
    by (simp add: initialize_def m1_service_def)
  have a: "map_of (registered_models (initialize gpt4_world m1_service)) ''m1'' = Some m1_model"
    unfolding i by (simp add: m1_service_def)
  have b: "\<not> contains (runtime_models (initialize gpt4_world m1_service)) ''m1''"
    unfolding i by (simp add: m1_service_def contains_def)
  have w: "utcnow gpt4_world = 10" by (simp add: gpt4_world_def)
  have e: "apply_update 10 no_update m1_model = m1_model"
    by (simp add: apply_update_def Let_def if_not_None_def no_update_def m1_model_fields)
  have u: "update_model gpt4_world ''m1'' no_update m1_service =
      (Inr (Some m1_model), m1_service\<lparr>registered_models :=
         AList.update ''m1'' m1_model (registered_models m1_service)\<rparr>)"
    using update_model_present [OF a b, of no_update] unfolding i w e .
  show ?thesis unfolding u using a w by (simp add: i m1_model_fields m1_service_def)
qed

subsection \<open>Listing on an initialised service\<close>

lemma run_reload_gpt4: "run [(gpt4_world, Reload)] ModelService_init = reloaded_service"
  by (simp add: reload_runtime_models_def load_runtime_models_def scan_gpt4 ModelService_init_def
        reloaded_service_def)

lemma initialize_reloaded_service:
  "initialize empty_world reloaded_service = initialized_service"
proof -
  have "environ empty_world = []" by (simp add: empty_world_def)
  then show ?thesis
    by (simp add: initialize_def load_runtime_models_def reloaded_service_def
          initialized_service_def)
qed

lemma contains_reloaded_service:
  "contains (runtime_models reloaded_service) ''gpt4''"
  "\<not> contains (registered_models reloaded_service) ''gpt4''"
  "\<not> contains (runtime_models initialized_service) ''gpt4''"
  "\<not> contains (registered_models initialized_service) ''gpt4''"
  by (simp_all add: contains_def reloaded_service_def initialized_service_def)

lemma summary_of_fields:
  "sum_model_id (summary_of m) = model_id m \<and> sum_model_name (summary_of m) = model_name m
   \<and> sum_description (summary_of m) = description m
   \<and> sum_model_type (summary_of m) = model_type m \<and> sum_base_url (summary_of m) = base_url m
   \<and> sum_status (summary_of m) = status m \<and> sum_tags (summary_of m) = tags m
   \<and> sum_created_at (summary_of m) = created_at m"
  by (simp add: summary_of_def)

text \<open>
  Claim C7, as amended. On an initialised service, the listing with
  \<^verbatim>\<open>include_inactive=False\<close> is the summaries of the registered models whose status is
  \<^verbatim>\<open>ACTIVE\<close>, in their order, followed by the summaries of all the runtime models whatever
  their status; no summary of the first part has another status, every runtime model has
  its summary in the list, \<^verbatim>\<open>total_models\<close> is the length of the list, the service is
  left as it was, and a summary carries the identifier, name, description, kind, base
  URL, status, tags and time of creation of its model.
\<close>

theorem list_active_registered_all_runtime:
  assumes "initialized s"
  shows "models (fst (get_all_models w False s)) =
     map summary_of (filter (\<lambda>m. status m = ACTIVE) (map snd (registered_models s)))
     @ map summary_of (map snd (runtime_models s))
   \<and> (\<forall>x \<in> set (registered_summaries False (map snd (registered_models s))).
        sum_status x = ACTIVE)
   \<and> (\<forall>p \<in> set (runtime_models s).
        summary_of (snd p) \<in> set (models (fst (get_all_models w False s))))
   \<and> total_models (fst (get_all_models w False s)) = length (models (fst (get_all_models w False s)))
   \<and> resp_runtime_models (fst (get_all_models w False s)) =
        map summary_of (map snd (runtime_models s))
   \<and> snd (get_all_models w False s) = s
   \<and> sum_model_id (summary_of m) = model_id m \<and> sum_model_name (summary_of m) = model_name m
   \<and> sum_description (summary_of m) = description m
   \<and> sum_model_type (summary_of m) = model_type m \<and> sum_base_url (summary_of m) = base_url m
   \<and> sum_status (summary_of m) = status m \<and> sum_tags (summary_of m) = tags m
   \<and> sum_created_at (summary_of m) = created_at m"
proof -
  note a = get_all_models_after_initialize [of w s, unfolded initialize_initialized [OF assms]]
  from a summary_of_fields [of m] show ?thesis by blast
qed

theorem list_active_registered_all_runtime_witness:
  "initialized listing_service
   \<and> models (fst (get_all_models empty_world False listing_service)) =
     [summary_of m1_model, summary_of (gpt4_model\<lparr>status := INACTIVE\<rparr>)]
   \<and> status m2_model \<noteq> ACTIVE
   \<and> total_models (fst (get_all_models empty_world False listing_service)) = 2"
proof -
  have i: "initialized listing_service" by (simp add: listing_service_def)
  have a: "status m1_model = ACTIVE" "status m2_model = INACTIVE"
    by (simp_all add: m1_model_def m2_model_def new_model_def m1_request_def)
  note t = list_active_registered_all_runtime [OF i, of empty_world]
  have "models (fst (get_all_models empty_world False listing_service)) =
     [summary_of m1_model, summary_of (gpt4_model\<lparr>status := INACTIVE\<rparr>)]"
    using t a by (simp add: listing_service_def)
  moreover have "total_models (fst (get_all_models empty_world False listing_service)) =
     length (models (fst (get_all_models empty_world False listing_service)))"
    using t by blast
  ultimately show ?thesis using a i by simp
qed

text \<open>
  Not for every state: when a reload was the first call and the variable has gone since,
  the listing rescans the environment before it reads the runtime models, and the model
  that was in the runtime dictionary is not listed.
\<close>

theorem list_before_initialization_counterexample:
  "run [(gpt4_world, Reload)] ModelService_init = reloaded_service
   \<and> runtime_models reloaded_service = [(''gpt4'', gpt4_model)]
   \<and> models (fst (get_all_models empty_world False reloaded_service)) = []
   \<and> total_models (fst (get_all_models empty_world False reloaded_service)) = 0"
proof -
  have l: "models (fst (get_all_models empty_world False reloaded_service)) = []
    \<and> total_models (fst (get_all_models empty_world False reloaded_service)) = 0"
    unfolding get_all_models_def Let_def initialize_reloaded_service
    by (simp add: initialized_service_def)
  have r: "runtime_models reloaded_service = [(''gpt4'', gpt4_model)]"
    by (simp add: reloaded_service_def)
  from run_reload_gpt4 r l show ?thesis by (simp only:)
qed

subsection \<open>Register, update and delete on an initialised service\<close>

text \<open>
  Claim C5, as amended. On an initialised service, for an identifier that is a key of the
  runtime dictionary: \<^verbatim>\<open>register_model\<close> raises the \<^verbatim>\<open>ValueError\<close> of a conflict,
  \<^verbatim>\<open>update_model\<close> raises the one that protects runtime models (it does not return
  \<^verbatim>\<open>None\<close>), and \<^verbatim>\<open>delete_model\<close> raises its own; each leaves the service, and so both
  dictionaries, as it was.
\<close>

theorem runtime_models_protected:
  assumes "initialized s" and "contains (runtime_models s) mid" and "reg_model_id request = mid"
  shows "register_model w request s =
           (Inl (if contains (registered_models s) mid
                 then already_exists mid else specified_as_runtime mid), s)
         \<and> update_model w mid update s = (Inl cannot_update, s)
         \<and> delete_model w mid s = (Inl cannot_delete, s)"
proof -
  note i = initialize_initialized [OF assms(1), of w]
  from assms(2) have "contains (runtime_models (initialize w s)) mid" by (simp only: i)
  from protected_after_initialize [OF this assms(3), of update] show ?thesis
    unfolding i by blast
qed

theorem runtime_models_protected_witness:
  "initialized gpt4_service \<and> contains (runtime_models gpt4_service) ''gpt4''
   \<and> register_model gpt4_world gpt4_request gpt4_service =
       (Inl (specified_as_runtime ''gpt4''), gpt4_service)
   \<and> update_model gpt4_world ''gpt4'' no_update gpt4_service = (Inl cannot_update, gpt4_service)
   \<and> delete_model gpt4_world ''gpt4'' gpt4_service = (Inl cannot_delete, gpt4_service)"
proof -
  have i: "initialized gpt4_service" by (simp add: gpt4_service_def)
  have c: "contains (runtime_models gpt4_service) ''gpt4''"
    by (simp add: contains_def gpt4_service_def)
  have r: "reg_model_id gpt4_request = ''gpt4''"
    by (simp add: gpt4_request_def)
  have n: "\<not> contains (registered_models gpt4_service) ''gpt4''"
    by (simp add: contains_def gpt4_service_def)
  from runtime_models_protected [OF i c r, of gpt4_world no_update] i c n show ?thesis
    by simp
qed

text \<open>
  Not before the initialisation: when a reload was the first call and the variable has
  gone since, \<^verbatim>\<open>gpt4\<close> is a key of the runtime dictionary, yet \<^verbatim>\<open>update_model\<close> returns
  \<^verbatim>\<open>None\<close> and \<^verbatim>\<open>delete_model\<close> returns \<^verbatim>\<open>False\<close>, and the runtime dictionary is
  emptied by the rescan.
\<close>

theorem unprotected_before_initialization_counterexample:
  "run [(gpt4_world, Reload)] ModelService_init = reloaded_service
   \<and> contains (runtime_models reloaded_service) ''gpt4''
   \<and> update_model empty_world ''gpt4'' no_update reloaded_service = (Inr None, initialized_service)
   \<and> delete_model empty_world ''gpt4'' reloaded_service = (Inr False, initialized_service)
   \<and> runtime_models initialized_service \<noteq> runtime_models reloaded_service"
proof -
  have u: "update_model empty_world ''gpt4'' no_update reloaded_service
             = (Inr None, initialized_service)"
    using update_model_absent [of empty_world reloaded_service "''gpt4''" no_update]
    unfolding initialize_reloaded_service by (simp add: contains_reloaded_service)
  have d: "delete_model empty_world ''gpt4'' reloaded_service = (Inr False, initialized_service)"
    using delete_model_result [of empty_world reloaded_service "''gpt4''"]
    unfolding initialize_reloaded_service
    by (simp add: contains_reloaded_service) (simp add: initialized_service_def)
  have r: "runtime_models initialized_service \<noteq> runtime_models reloaded_service"
    by (simp add: initialized_service_def reloaded_service_def)
  from run_reload_gpt4 contains_reloaded_service(1) u d r show ?thesis by blast
qed

lemma new_model_fields:
  "model_id (new_model now request) = reg_model_id request
   \<and> model_name (new_model now request) = reg_model_name request
   \<and> description (new_model now request) = reg_description request
   \<and> model_type (new_model now request) = reg_model_type request
   \<and> base_url (new_model now request) = reg_base_url request
   \<and> api_key_required (new_model now request) = reg_api_key_required request
   \<and> model_path (new_model now request) = reg_model_path request
   \<and> capabilities (new_model now request) =
       (case reg_capabilities request of None \<Rightarrow> ModelCapabilities_default | Some c \<Rightarrow> c)
   \<and> config (new_model now request) =
       (case reg_config request of None \<Rightarrow> ModelConfig_default | Some c \<Rightarrow> c)
   \<and> status (new_model now request) = reg_status request
   \<and> tags (new_model now request) = reg_tags request"
  by (simp add: new_model_def)

text \<open>
  Claim C6, as amended. On an initialised service, \<^verbatim>\<open>register_model\<close> raises a
  \<^verbatim>\<open>ValueError\<close> of conflict when the identifier of the request is a key of either
  dictionary; otherwise it appends to the registered dictionary a model that carries the
  fields of the request and whose times of creation and of update are both the reading
  of the clock, and returns that very model. \<^verbatim>\<open>update_model\<close> returns \<^verbatim>\<open>None\<close>, without
  an error, for an identifier in neither dictionary. \<^verbatim>\<open>delete_model\<close>, when it does not
  raise, returns whether the identifier was registered, which is the case exactly when
  the registered dictionary has changed.
\<close>

theorem register_update_delete_results:
  assumes "initialized s"
  shows "(contains (registered_models s) (reg_model_id request)
      \<or> contains (runtime_models s) (reg_model_id request)
    \<longrightarrow> register_model w request s =
           (Inl (if contains (registered_models s) (reg_model_id request)
                 then already_exists (reg_model_id request)
                 else specified_as_runtime (reg_model_id request)), s))
   \<and> (\<not> contains (registered_models s) (reg_model_id request)
      \<and> \<not> contains (runtime_models s) (reg_model_id request)
    \<longrightarrow> register_model w request s =
           (Inr (new_model (utcnow w) request),
            s\<lparr>registered_models :=
               registered_models s @ [(reg_model_id request, new_model (utcnow w) request)]\<rparr>)
        \<and> created_at (new_model (utcnow w) request) = utcnow w
        \<and> updated_at (new_model (utcnow w) request) = utcnow w
        \<and> map_of (registered_models (snd (register_model w request s))) (reg_model_id request)
            = Some (new_model (utcnow w) request))
   \<and> (model_id (new_model (utcnow w) request) = reg_model_id request
      \<and> model_name (new_model (utcnow w) request) = reg_model_name request
      \<and> description (new_model (utcnow w) request) = reg_description request
      \<and> model_type (new_model (utcnow w) request) = reg_model_type request
      \<and> base_url (new_model (utcnow w) request) = reg_base_url request
      \<and> api_key_required (new_model (utcnow w) request) = reg_api_key_required request
      \<and> model_path (new_model (utcnow w) request) = reg_model_path request
      \<and> capabilities (new_model (utcnow w) request) =
          (case reg_capabilities request of None \<Rightarrow> ModelCapabilities_default | Some c \<Rightarrow> c)
      \<and> config (new_model (utcnow w) request) =
          (case reg_config request of None \<Rightarrow> ModelConfig_default | Some c \<Rightarrow> c)
      \<and> status (new_model (utcnow w) request) = reg_status request
      \<and> tags (new_model (utcnow w) request) = reg_tags request)
   \<and> (\<not> contains (registered_models s) mid \<and> \<not> contains (runtime_models s) mid
    \<longrightarrow> update_model w mid update s = (Inr None, s))
   \<and> (\<not> contains (runtime_models s) mid
    \<longrightarrow> delete_model w mid s =
           (Inr (contains (registered_models s) mid),
            s\<lparr>registered_models := AList.delete mid (registered_models s)\<rparr>)
        \<and> (contains (registered_models s) mid
             \<longleftrightarrow> registered_models (snd (delete_model w mid s)) \<noteq> registered_models s))"
proof -
  note i = initialize_initialized [OF assms, of w]
  note a = results_after_initialize
    [where w = w and s = s and request = request and mid = mid and update = update, unfolded i]
  from a new_model_fields [of "utcnow w" request] show ?thesis by blast
qed

theorem register_update_delete_results_witness:
  "initialized gpt4_service \<and> initialized m1_service
   \<and> register_model gpt4_world gpt4_request gpt4_service =
     (Inl (specified_as_runtime ''gpt4''), gpt4_service)
   \<and> register_model gpt4_world m1_request gpt4_service = (Inr m1_model, m1_service)
   \<and> created_at m1_model = 10 \<and> updated_at m1_model = 10
   \<and> update_model gpt4_world ''zz'' no_update gpt4_service = (Inr None, gpt4_service)
   \<and> delete_model gpt4_world ''m1'' m1_service = (Inr True, gpt4_service)
   \<and> delete_model gpt4_world ''zz'' m1_service = (Inr False, m1_service)"
proof -
  have i: "initialized gpt4_service" "initialized m1_service"
    by (simp_all add: gpt4_service_def m1_service_def)
  have u: "utcnow gpt4_world = 10" by (simp add: gpt4_world_def)
  have ids: "reg_model_id gpt4_request = ''gpt4''" "reg_model_id m1_request = ''m1''"
    by (simp_all add: gpt4_request_def m1_request_def)
  have c: "contains (runtime_models gpt4_service) ''gpt4''"
    "\<not> contains (registered_models gpt4_service) ''gpt4''"
    "\<not> contains (runtime_models gpt4_service) ''m1''"
    "\<not> contains (registered_models gpt4_service) ''m1''"
    "\<not> contains (runtime_models gpt4_service) ''zz''"
    "\<not> contains (registered_models gpt4_service) ''zz''"
    "\<not> contains (runtime_models m1_service) ''m1''"
    "contains (registered_models m1_service) ''m1''"
    "\<not> contains (runtime_models m1_service) ''zz''"
    "\<not> contains (registered_models m1_service) ''zz''"
    by (simp_all add: contains_def gpt4_service_def m1_service_def)
  have r: "registered_models gpt4_service = []" "registered_models m1_service = [(''m1'', m1_model)]"
    by (simp_all add: gpt4_service_def m1_service_def)
  have s: "gpt4_service\<lparr>registered_models := [(''m1'', m1_model)]\<rparr> = m1_service"
    "m1_service\<lparr>registered_models := []\<rparr> = gpt4_service"
    "m1_service\<lparr>registered_models := [(''m1'', m1_model)]\<rparr> = m1_service"
    by (simp_all add: gpt4_service_def m1_service_def)
  have 1: "register_model gpt4_world gpt4_request gpt4_service =
     (Inl (specified_as_runtime ''gpt4''), gpt4_service)"
    using register_update_delete_results
      [OF i(1), where w = gpt4_world and request = gpt4_request and mid = "''zz''"
        and update = no_update] c
    unfolding ids by simp
  have 2: "register_model gpt4_world m1_request gpt4_service = (Inr m1_model, m1_service)
     \<and> created_at m1_model = 10 \<and> updated_at m1_model = 10
     \<and> update_model gpt4_world ''zz'' no_update gpt4_service = (Inr None, gpt4_service)"
    using register_update_delete_results
      [OF i(1), where w = gpt4_world and request = m1_request and mid = "''zz''"
        and update = no_update] c
    unfolding ids u r m1_model_def [symmetric] by (simp add: s)
  have 3: "delete_model gpt4_world ''m1'' m1_service = (Inr True, gpt4_service)"
    using register_update_delete_results
      [OF i(2), where w = gpt4_world and request = m1_request and mid = "''m1''"
        and update = no_update] c
    unfolding r by (simp add: s)
  have 4: "delete_model gpt4_world ''zz'' m1_service = (Inr False, m1_service)"
    using register_update_delete_results
      [OF i(2), where w = gpt4_world and request = m1_request and mid = "''zz''"
        and update = no_update] c
    unfolding r by (simp add: s)
  from i 1 2 3 4 show ?thesis by blast
qed

text \<open>
  Not before the initialisation: when a reload was the first call and the variable has
  gone since, \<^verbatim>\<open>gpt4\<close> is a key of the runtime dictionary and its registration succeeds.
\<close>

theorem register_before_initialization_counterexample:
  "run [(gpt4_world, Reload)] ModelService_init = reloaded_service
   \<and> contains (runtime_models reloaded_service) (reg_model_id gpt4_request)
   \<and> register_model empty_world gpt4_request reloaded_service =
       (Inr (new_model 10 gpt4_request),
        initialized_service\<lparr>registered_models := [(''gpt4'', new_model 10 gpt4_request)]\<rparr>)"
proof -
  have k: "reg_model_id gpt4_request = ''gpt4''" by (simp add: gpt4_request_def)
  have u: "utcnow empty_world = 10" by (simp add: empty_world_def)
  have a: "\<not> contains (registered_models (initialize empty_world reloaded_service))
               (reg_model_id gpt4_request)"
    and b: "\<not> contains (runtime_models (initialize empty_world reloaded_service))
               (reg_model_id gpt4_request)"
    unfolding initialize_reloaded_service k by (simp_all add: contains_reloaded_service)
  have e: "registered_models initialized_service = []" by (simp add: initialized_service_def)
  have r: "register_model empty_world gpt4_request reloaded_service =
       (Inr (new_model 10 gpt4_request),
        initialized_service\<lparr>registered_models := [(''gpt4'', new_model 10 gpt4_request)]\<rparr>)"
    using register_model_new [OF a b] unfolding initialize_reloaded_service k u e by simp
  from run_reload_gpt4 contains_reloaded_service(1) r show ?thesis unfolding k by blast
qed

subsection \<open>The two dictionaries and their keys\<close>

lemma rwi_init: "registered_when_initialized ModelService_init"
  by (simp add: registered_when_initialized_def disjoint_registries_def ModelService_init_def)

lemma rwi_initialize:
  assumes "registered_when_initialized s"
  shows "registered_when_initialized (initialize w s) \<and> initialized (initialize w s)"
proof (cases "initialized s")
  case True
  with assms show ?thesis by (simp add: initialize_initialized)
next
  case False
  with assms have "registered_models s = []" by (simp add: registered_when_initialized_def)
  with False show ?thesis
    by (simp add: registered_when_initialized_def disjoint_registries_def initialize_def
          load_runtime_models_def)
qed

lemma rwi_registered:
  assumes "registered_when_initialized s" and "initialized s"
    and "fst ` set al \<subseteq> fst ` set (registered_models s) \<union> (- fst ` set (runtime_models s))"
  shows "registered_when_initialized (s\<lparr>registered_models := al\<rparr>)"
proof -
  from assms(1) have "fst ` set (registered_models s) \<inter> fst ` set (runtime_models s) = {}"
    by (simp add: registered_when_initialized_def disjoint_registries_def)
  with assms(3) have "fst ` set al \<inter> fst ` set (runtime_models s) = {}" by blast
  with assms(2) show ?thesis
    by (simp add: registered_when_initialized_def disjoint_registries_def)
qed

lemma rwi_register:
  assumes "registered_when_initialized s"
  shows "registered_when_initialized (snd (register_model w request s))"
proof -
  let ?s = "initialize w s"
  from rwi_initialize [OF assms] have i: "registered_when_initialized ?s" "initialized ?s"
    by simp_all
  show ?thesis
  proof (cases "contains (registered_models ?s) (reg_model_id request)
                \<or> contains (runtime_models ?s) (reg_model_id request)")
    case True
    from register_model_conflict [OF True] have "snd (register_model w request s) = ?s" by simp
    with i show ?thesis by simp
  next
    case False
    then have n: "reg_model_id request \<notin> fst ` set (runtime_models ?s)"
      by (simp add: contains_keys)
    from False have "snd (register_model w request s) =
        ?s\<lparr>registered_models := AList.update (reg_model_id request)
             (new_model (utcnow w) request) (registered_models ?s)\<rparr>"
      by (simp add: register_model_def Let_def)
    moreover have "registered_when_initialized
        (?s\<lparr>registered_models := AList.update (reg_model_id request)
             (new_model (utcnow w) request) (registered_models ?s)\<rparr>)"
      using i n by (intro rwi_registered) (auto simp: keys_update)
    ultimately show ?thesis by simp
  qed
qed

lemma rwi_update:
  assumes "registered_when_initialized s"
  shows "registered_when_initialized (snd (update_model w mid request s))"
proof -
  let ?s = "initialize w s"
  from rwi_initialize [OF assms] have i: "registered_when_initialized ?s" "initialized ?s"
    by simp_all
  show ?thesis
  proof (cases "contains (runtime_models ?s) mid")
    case True
    then have "snd (update_model w mid request s) = ?s"
      by (simp add: update_model_def Let_def)
    with i show ?thesis by simp
  next
    case False
    show ?thesis
    proof (cases "map_of (registered_models ?s) mid")
      case None
      with False have "snd (update_model w mid request s) = ?s"
        by (simp add: update_model_def Let_def)
      with i show ?thesis by simp
    next
      case (Some m)
      then have k: "mid \<in> fst ` set (registered_models ?s)"
        by (metis map_of_eq_None_iff option.distinct(1))
      from update_model_present [OF Some False] have "snd (update_model w mid request s) =
        ?s\<lparr>registered_models := AList.update mid (apply_update (utcnow w) request m)
             (registered_models ?s)\<rparr>"
        by simp
      moreover have "registered_when_initialized (?s\<lparr>registered_models :=
             AList.update mid (apply_update (utcnow w) request m) (registered_models ?s)\<rparr>)"
        using i k by (intro rwi_registered) (auto simp: keys_update)
      ultimately show ?thesis by simp
    qed
  qed
qed

lemma rwi_delete:
  assumes "registered_when_initialized s"
  shows "registered_when_initialized (snd (delete_model w mid s))"
proof -
  let ?s = "initialize w s"
  from rwi_initialize [OF assms] have i: "registered_when_initialized ?s" "initialized ?s"
    by simp_all
  have "set (AList.delete mid (registered_models ?s)) \<subseteq> set (registered_models ?s)"
    by (auto simp: AList.delete_eq)
  then have "registered_when_initialized
      (?s\<lparr>registered_models := AList.delete mid (registered_models ?s)\<rparr>)"
    using i by (intro rwi_registered) auto
  moreover have "snd (delete_model w mid s) = ?s
     \<or> snd (delete_model w mid s) =
         ?s\<lparr>registered_models := AList.delete mid (registered_models ?s)\<rparr>"
    by (simp add: delete_model_def Let_def)
  ultimately show ?thesis using i by auto
qed

lemma disjoint_reload:
  "disjoint_registries (reload_runtime_models w s) \<longleftrightarrow>
     fst ` set (scan_environ w (environ w) []) \<inter> fst ` set (registered_models s) = {}"
  by (auto simp: disjoint_registries_def runtime_models_reload registered_models_reload)

lemma rwi_reload:
  assumes "registered_when_initialized s"
    and "fst ` set (scan_environ w (environ w) []) \<inter> fst ` set (registered_models s) = {}"
  shows "registered_when_initialized (reload_runtime_models w s)"
  using assms disjoint_reload [of w s]
  by (simp add: registered_when_initialized_def registered_models_reload initialized_reload)

lemma rwi_apply_operation:
  assumes "registered_when_initialized s"
    and "c = Reload \<longrightarrow>
         fst ` set (scan_environ w (environ w) []) \<inter> fst ` set (registered_models s) = {}"
  shows "registered_when_initialized (apply_operation (w, c) s)"
  using assms
  by (cases c) (simp_all add: rwi_register rwi_update rwi_delete rwi_reload rwi_initialize)

lemma rwi_run:
  assumes "reloads_avoid_registered calls s" and "registered_when_initialized s"
  shows "registered_when_initialized (run calls s)"
  using assms
proof (induction calls arbitrary: s)
  case Nil
  then show ?case by simp
next
  case (Cons call calls)
  obtain w c where call: "call = (w, c)" by (cases call)
  from Cons.prems(1) have here: "c = Reload \<longrightarrow>
         fst ` set (scan_environ w (environ w) []) \<inter> fst ` set (registered_models s) = {}"
    and rest: "reloads_avoid_registered calls (apply_operation (w, c) s)"
    by (simp_all add: call)
  from rwi_apply_operation [OF Cons.prems(2) here]
  have "registered_when_initialized (apply_operation (w, c) s)" .
  from Cons.IH [OF rest this] show ?case by (simp add: call)
qed

lemma no_reload_avoids:
  "\<forall>call \<in> set calls. snd call \<noteq> Reload \<Longrightarrow> reloads_avoid_registered calls s"
proof (induction calls arbitrary: s)
  case Nil
  then show ?case by simp
next
  case (Cons call calls)
  obtain w c where call: "call = (w, c)" by (cases call)
  with Cons show ?case by simp
qed

text \<open>
  Claim C1, as amended. No identifier is a key of both dictionaries at any state reached
  from a new service by register, update, delete and initialise calls, in any
  environments, and by reloads that find no registered identifier in their environment;
  a reload leaves the dictionaries without a common key exactly when its scan yields no
  identifier that is registered.
\<close>

theorem registries_disjoint_unless_reload_collides:
  "(reloads_avoid_registered calls ModelService_init
      \<longrightarrow> disjoint_registries (run calls ModelService_init))
   \<and> ((\<forall>call \<in> set calls. snd call \<noteq> Reload)
      \<longrightarrow> disjoint_registries (run calls ModelService_init))
   \<and> (disjoint_registries (reload_runtime_models w s) \<longleftrightarrow>
        fst ` set (scan_environ w (environ w) []) \<inter> fst ` set (registered_models s) = {})"
proof (intro conjI impI)
  assume "reloads_avoid_registered calls ModelService_init"
  from rwi_run [OF this rwi_init]
  show "disjoint_registries (run calls ModelService_init)"
    by (simp add: registered_when_initialized_def)
next
  assume "\<forall>call \<in> set calls. snd call \<noteq> Reload"
  then have "reloads_avoid_registered calls ModelService_init" by (rule no_reload_avoids)
  from rwi_run [OF this rwi_init]
  show "disjoint_registries (run calls ModelService_init)"
    by (simp add: registered_when_initialized_def)
next
  show "disjoint_registries (reload_runtime_models w s) \<longleftrightarrow>
        fst ` set (scan_environ w (environ w) []) \<inter> fst ` set (registered_models s) = {}"
    by (rule disjoint_reload)
qed

lemma initialize_empty_world: "initialize empty_world ModelService_init = initialized_service"
proof -
  have "environ empty_world = []" by (simp add: empty_world_def)
  then show ?thesis
    by (simp add: initialize_def load_runtime_models_def ModelService_init_def
          initialized_service_def)
qed

lemma register_m1_empty_world:
  "snd (register_model empty_world m1_request ModelService_init) =
     initialized_service\<lparr>registered_models := [(''m1'', m1_model)]\<rparr>"
proof -
  have k: "reg_model_id m1_request = ''m1''" by (simp add: m1_request_def)
  have u: "utcnow empty_world = 10" by (simp add: empty_world_def)
  have e: "registered_models initialized_service = []" by (simp add: initialized_service_def)
  have a: "\<not> contains (registered_models (initialize empty_world ModelService_init))
               (reg_model_id m1_request)"
    and b: "\<not> contains (runtime_models (initialize empty_world ModelService_init))
               (reg_model_id m1_request)"
    unfolding initialize_empty_world by (simp_all add: contains_def initialized_service_def)
  from register_model_new [OF a b] show ?thesis
    unfolding initialize_empty_world k u e m1_model_def [symmetric] by simp
qed

lemma reload_after_m1:
  "reload_runtime_models gpt4_world
     (initialized_service\<lparr>registered_models := [(''m1'', m1_model)]\<rparr>) = m1_service"
  by (simp add: reload_runtime_models_def load_runtime_models_def scan_gpt4
        initialized_service_def m1_service_def)

theorem registries_disjoint_unless_reload_collides_witness:
  "reloads_avoid_registered
     [(empty_world, Register m1_request), (gpt4_world, Reload)] ModelService_init
   \<and> run [(empty_world, Register m1_request), (gpt4_world, Reload)] ModelService_init
       = m1_service
   \<and> disjoint_registries m1_service"
proof -
  have r: "run [(empty_world, Register m1_request), (gpt4_world, Reload)] ModelService_init
       = m1_service"
    by (simp add: register_m1_empty_world reload_after_m1)
  have "fst ` set (scan_environ gpt4_world (environ gpt4_world) [])
          \<inter> fst ` set (registered_models
                (initialized_service\<lparr>registered_models := [(''m1'', m1_model)]\<rparr>)) = {}"
    by (simp add: scan_gpt4)
  then have h: "reloads_avoid_registered
     [(empty_world, Register m1_request), (gpt4_world, Reload)] ModelService_init"
    by (simp add: register_m1_empty_world)
  from registries_disjoint_unless_reload_collides
     [of "[(empty_world, Register m1_request), (gpt4_world, Reload)]"] h
  have "disjoint_registries
     (run [(empty_world, Register m1_request), (gpt4_world, Reload)] ModelService_init)"
    by blast
  with r h show ?thesis by (simp only:) 
qed

text \<open>
  A reload can give the dictionaries a common key: \<^verbatim>\<open>gpt4\<close> is registered while no
  variable names it, then \<^verbatim>\<open>EVAL_HUB_MODEL_GPT4_URL\<close> is set and the runtime models are
  reloaded. The reload does not look at the registered models.
\<close>

theorem reload_breaks_disjointness_counterexample:
  "contains (registered_models
      (run [(empty_world, Register gpt4_request), (gpt4_world, Reload)] ModelService_init)) ''gpt4''
   \<and> contains (runtime_models
      (run [(empty_world, Register gpt4_request), (gpt4_world, Reload)] ModelService_init)) ''gpt4''
   \<and> \<not> disjoint_registries
      (run [(empty_world, Register gpt4_request), (gpt4_world, Reload)] ModelService_init)"
proof -
  have i: "initialize empty_world ModelService_init =
      \<lparr>registered_models = [], runtime_models = [], initialized = True\<rparr>"
    by (simp add: initialize_def load_runtime_models_def ModelService_init_def empty_world_def)
  have a: "\<not> contains (registered_models (initialize empty_world ModelService_init))
               (reg_model_id gpt4_request)"
    and b: "\<not> contains (runtime_models (initialize empty_world ModelService_init))
               (reg_model_id gpt4_request)"
    unfolding i by (simp_all add: contains_def)
  have k: "reg_model_id gpt4_request = ''gpt4''" by (simp add: gpt4_request_def)
  have 1: "snd (register_model empty_world gpt4_request ModelService_init) =
      \<lparr>registered_models = [(''gpt4'', new_model (utcnow empty_world) gpt4_request)],
        runtime_models = [], initialized = True\<rparr>"
    using register_model_new [OF a b] unfolding i k by simp
  have 2: "run [(empty_world, Register gpt4_request), (gpt4_world, Reload)] ModelService_init =
      \<lparr>registered_models = [(''gpt4'', new_model (utcnow empty_world) gpt4_request)],
        runtime_models = [(''gpt4'', gpt4_model)], initialized = True\<rparr>"
    by (simp add: 1 reload_runtime_models_def load_runtime_models_def scan_gpt4)
  show ?thesis unfolding 2 by (simp add: contains_def disjoint_registries_def)
qed

subsection \<open>The model that a URL variable gives\<close>

lemma scan_environ_other:
  assumes "\<forall>p \<in> set items. runtime_id w (fst p) (snd p) \<noteq> Some k"
  shows "map_of (scan_environ w items acc) k = map_of acc k"
  using assms
proof (induction items arbitrary: acc)
  case Nil
  then show ?case by simp
next
  case (Cons item items)
  obtain var val where item: "item = (var, val)" by (cases item)
  from Cons.prems have rest: "\<forall>p \<in> set items. runtime_id w (fst p) (snd p) \<noteq> Some k"
    and this_one: "runtime_id w var val \<noteq> Some k" by (simp_all add: item)
  show ?case
  proof (cases "runtime_model w var val")
    case None
    then have "scan_environ w (item # items) acc = scan_environ w items acc"
      by (simp add: item)
    with Cons.IH [OF rest, of acc] show ?thesis by (simp only:)
  next
    case (Some m')
    with model_id_runtime_model [of w var val] this_one have ne: "model_id m' \<noteq> k" by auto
    have "scan_environ w (item # items) acc =
            scan_environ w items (AList.update (model_id m') m' acc)"
      using Some by (simp add: item)
    with Cons.IH [OF rest, of "AList.update (model_id m') m' acc"] ne
    show ?thesis by (simp add: AList.update_conv')
  qed
qed

lemma scan_environ_lookup:
  assumes "runtime_model w var val = Some m"
    and "\<forall>p \<in> set items. p = (var, val) \<or> runtime_id w (fst p) (snd p) \<noteq> Some (model_id m)"
    and "(var, val) \<in> set items \<or> map_of acc (model_id m) = Some m"
  shows "map_of (scan_environ w items acc) (model_id m) = Some m"
  using assms(2,3)
proof (induction items arbitrary: acc)
  case Nil
  then show ?case by simp
next
  case (Cons item items)
  from Cons.prems(1) have rest:
    "\<forall>p \<in> set items. p = (var, val) \<or> runtime_id w (fst p) (snd p) \<noteq> Some (model_id m)"
    by simp
  show ?case
  proof (cases "item = (var, val)")
    case True
    have "map_of (AList.update (model_id m) m acc) (model_id m) = Some m"
      by (simp add: AList.update_conv')
    then have "map_of (scan_environ w items (AList.update (model_id m) m acc)) (model_id m) = Some m"
      using Cons.IH [OF rest] by blast
    then show ?thesis using assms(1) by (simp add: True)
  next
    case False
    obtain var' val' where item: "item = (var', val')" by (cases item)
    from False Cons.prems(1) have ne: "runtime_id w var' val' \<noteq> Some (model_id m)"
      by (auto simp: item)
    from False Cons.prems(2) have here:
      "(var, val) \<in> set items \<or> map_of acc (model_id m) = Some m" by auto
    show ?thesis
    proof (cases "runtime_model w var' val'")
      case None
      then have "scan_environ w (item # items) acc = scan_environ w items acc"
        by (simp add: item)
      with Cons.IH [OF rest here] show ?thesis by (simp only:)
    next
      case (Some m')
      with model_id_runtime_model [of w var' val'] ne have "model_id m' \<noteq> model_id m" by auto
      then have "map_of (AList.update (model_id m') m' acc) (model_id m) = map_of acc (model_id m)"
        by (simp add: AList.update_conv')
      with here have "(var, val) \<in> set items
          \<or> map_of (AList.update (model_id m') m' acc) (model_id m) = Some m" by simp
      from Cons.IH [OF rest this] Some show ?thesis by (simp add: item)
    qed
  qed
qed

lemma scan_environ_skip:
  assumes "strip w val = []"
  shows "scan_environ w ((var, val) # items) acc = scan_environ w items acc"
proof -
  from assms have "runtime_model w var val = None" by (simp add: runtime_model_None)
  then show ?thesis by simp
qed

lemma get_model_by_id_runtime:
  assumes "map_of (registered_models s) mid = None"
  shows "fst (get_model_by_id w mid s) = map_of (runtime_models (initialize w s)) mid"
  using assms by (simp add: get_model_by_id_def Let_def registered_models_initialize)

lemma url_variable_lower: "url_variable ''EVAL_HUB_MODEL_gpt4_URL'' = Some ''gpt4''"
  using url_variable_name [of "''gpt4''"] by simp

lemma url_variable_NAME: "url_variable ''EVAL_HUB_MODEL_gpt4_NAME'' = None"
  by (simp add: url_variable_def endswith_def)

lemma strings_ascii:
  "lower w ''GPT4'' = ''gpt4''" "lower w ''gpt4'' = ''gpt4''" "upper w ''gpt4'' = ''GPT4''"
  "strip w ''http://gpt4'' = ''http://gpt4''" "strip w ''http://other'' = ''http://other''"
  by (simp_all add: lower_def upper_def strip_def is_ascii_def lower_char_def upper_char_def
      isspace_def)

lemma runtime_id_gpt4:
  "runtime_id w ''EVAL_HUB_MODEL_GPT4_URL'' ''http://gpt4'' = Some ''gpt4''"
  unfolding runtime_id_def url_variable_gpt4 by (simp add: strings_ascii)

lemma runtime_model_collision:
  "runtime_model collision_world ''EVAL_HUB_MODEL_gpt4_URL'' ''http://other'' = Some collision_model"
proof -
  have s: "strip collision_world ''http://other'' \<noteq> []" by (simp add: strings_ascii)
  have e: "getenv collision_world ''EVAL_HUB_MODEL_gpt4_NAME'' = Some ''B''"
    "getenv collision_world ''EVAL_HUB_MODEL_gpt4_TYPE'' = None"
    "getenv collision_world ''EVAL_HUB_MODEL_gpt4_PATH'' = None"
    by (simp_all add: getenv_def collision_world_def)
  have t: "ModelType_of collision_world ''openai-compatible'' = Some OPENAI_COMPATIBLE"
    by (simp add: ModelType_of_def)
  have c: "scan_utcnow collision_world ''EVAL_HUB_MODEL_gpt4_URL'' = (1, 2)"
    by (simp add: collision_world_def)
  show ?thesis
    unfolding runtime_model_Some [OF url_variable_lower s]
    by (simp add: strings_ascii lower_openai e t c collision_model_def)
qed

lemma scan_collision:
  "scan_environ collision_world (environ collision_world) [] = [(''gpt4'', collision_model)]"
proof -
  have env: "environ collision_world = [(''EVAL_HUB_MODEL_GPT4_URL'', ''http://gpt4''),
                  (''EVAL_HUB_MODEL_gpt4_URL'', ''http://other''),
                  (''EVAL_HUB_MODEL_gpt4_NAME'', ''B'')]"
    by (simp add: collision_world_def)
  have s: "strip collision_world ''http://gpt4'' \<noteq> []" by (simp add: strings_ascii)
  obtain m1 where m1: "runtime_model collision_world ''EVAL_HUB_MODEL_GPT4_URL'' ''http://gpt4'' = Some m1"
    using runtime_model_Some [OF url_variable_gpt4 s] by blast
  with model_id_runtime_model [of collision_world "''EVAL_HUB_MODEL_GPT4_URL''" "''http://gpt4''"]
  have i1: "model_id m1 = ''gpt4''" by (simp add: runtime_id_gpt4)
  have n: "runtime_model collision_world ''EVAL_HUB_MODEL_gpt4_NAME'' ''B'' = None"
    by (simp add: runtime_model_None url_variable_NAME)
  have i2: "model_id collision_model = ''gpt4''" by (simp add: collision_model_def)
  show ?thesis unfolding env
    by (simp add: m1 runtime_model_collision n i1 i2)
qed

text \<open>
  Claim C2, as amended. Let the environment hold a variable \<^verbatim>\<open>EVAL_HUB_MODEL_<ID>_URL\<close>, the
  \<^verbatim>\<open>ID\<close> not empty and without a line feed, whose value is not empty once stripped, and
  let no other item of the environment give the same lower-cased identifier. Then the
  initialisation of a service not yet initialised leaves under the lower-cased \<^verbatim>\<open>ID\<close> a
  runtime model with that identifier; its name is the value of the \<^verbatim>\<open>NAME\<close> variable, or
  \<^verbatim>\<open>Runtime Model\<close> followed by the upper-cased identifier when that variable is unset; its
  type is the member named by the lower-cased \<^verbatim>\<open>TYPE\<close> variable, \<^verbatim>\<open>openai-compatible\<close> when
  the variable is unset or names no member; its path is the value of the \<^verbatim>\<open>PATH\<close>
  variable, \<^verbatim>\<open>None\<close> when unset; its URL is the stripped value; it requires an API key, is
  active and is tagged \<^verbatim>\<open>runtime\<close>. \<^verbatim>\<open>get_model_by_id\<close> returns it unless the identifier
  is registered. An item whose value is empty once stripped leaves the scan as if it were
  absent.
\<close>

theorem url_variable_gives_runtime_model:
  assumes "g \<noteq> []" and "CHR 0x0A \<notin> set g"
    and "(''EVAL_HUB_MODEL_'' @ g @ ''_URL'', url) \<in> set (environ w)"
    and "strip w url \<noteq> []"
    and "\<forall>p \<in> set (environ w). p = (''EVAL_HUB_MODEL_'' @ g @ ''_URL'', url)
           \<or> runtime_id w (fst p) (snd p) \<noteq> Some (lower w g)"
    and "\<not> initialized s"
  shows "(\<exists>m. map_of (runtime_models (initialize w s)) (lower w g) = Some m
            \<and> (map_of (registered_models s) (lower w g) = None
                 \<longrightarrow> fst (get_model_by_id w (lower w g) s) = Some m)
            \<and> model_id m = lower w g
            \<and> model_name m = (case getenv w (''EVAL_HUB_MODEL_'' @ g @ ''_NAME'') of
                                None \<Rightarrow> ''Runtime Model '' @ upper w (lower w g) | Some v \<Rightarrow> v)
            \<and> description m = ''Runtime-specified model: '' @ model_name m
            \<and> model_type m =
                (case getenv w (''EVAL_HUB_MODEL_'' @ g @ ''_TYPE'') of
                   None \<Rightarrow> OPENAI_COMPATIBLE
                 | Some v \<Rightarrow> (case ModelType_of w (lower w v) of
                                None \<Rightarrow> OPENAI_COMPATIBLE | Some t \<Rightarrow> t))
            \<and> base_url m = strip w url
            \<and> api_key_required m
            \<and> model_path m = getenv w (''EVAL_HUB_MODEL_'' @ g @ ''_PATH'')
            \<and> capabilities m = ModelCapabilities_default
            \<and> config m = ModelConfig_default
            \<and> status m = ACTIVE
            \<and> tags m = [''runtime''])
         \<and> (\<forall>var val items acc. strip w val = [] \<longrightarrow>
               scan_environ w ((var, val) # items) acc = scan_environ w items acc)"
proof -
  let ?var = "''EVAL_HUB_MODEL_'' @ g @ ''_URL''"
  have uv: "url_variable ?var = Some g" by (rule url_variable_name [OF assms(1,2)])
  note rm = runtime_model_Some [OF uv assms(4)]
  obtain m where m: "runtime_model w ?var url = Some m" using rm by blast
  from m rm have id: "model_id m = lower w g" by auto
  from m rm have nm: "model_name m = (case getenv w (''EVAL_HUB_MODEL_'' @ g @ ''_NAME'') of
                                None \<Rightarrow> ''Runtime Model '' @ upper w (lower w g) | Some v \<Rightarrow> v)"
    by auto
  from m rm have ds: "description m = ''Runtime-specified model: '' @ model_name m" by auto
  from m rm have ty0: "model_type m = (case ModelType_of w
                                 (lower w (case getenv w (''EVAL_HUB_MODEL_'' @ g @ ''_TYPE'') of
                                           None \<Rightarrow> ''openai-compatible'' | Some v \<Rightarrow> v)) of
                            None \<Rightarrow> OPENAI_COMPATIBLE | Some t \<Rightarrow> t)" by auto
  have oa: "ModelType_of w (lower w ''openai-compatible'') = Some OPENAI_COMPATIBLE"
    by (simp add: lower_openai ModelType_of_def)
  have ty: "model_type m =
                (case getenv w (''EVAL_HUB_MODEL_'' @ g @ ''_TYPE'') of
                   None \<Rightarrow> OPENAI_COMPATIBLE
                 | Some v \<Rightarrow> (case ModelType_of w (lower w v) of
                                None \<Rightarrow> OPENAI_COMPATIBLE | Some t \<Rightarrow> t))"
  proof (cases "getenv w (''EVAL_HUB_MODEL_'' @ g @ ''_TYPE'')")
    case None
    with ty0 oa show ?thesis by (simp only: option.case)
  next
    case (Some v)
    with ty0 show ?thesis by (simp only: option.case)
  qed
  from m rm have bu: "base_url m = strip w url" by auto
  from m rm have ak: "api_key_required m" by auto
  from m rm have pa: "model_path m = getenv w (''EVAL_HUB_MODEL_'' @ g @ ''_PATH'')" by auto
  from m rm have ca: "capabilities m = ModelCapabilities_default" by auto
  from m rm have co: "config m = ModelConfig_default" by auto
  from m rm have st: "status m = ACTIVE" by auto
  from m rm have ta: "tags m = [''runtime'']" by auto
  have uniq: "\<forall>p \<in> set (environ w). p = (?var, url)
           \<or> runtime_id w (fst p) (snd p) \<noteq> Some (model_id m)"
    using assms(5) unfolding id .
  have "map_of (scan_environ w (environ w) []) (model_id m) = Some m"
    by (rule scan_environ_lookup [OF m uniq]) (rule disjI1, rule assms(3))
  then have look: "map_of (runtime_models (initialize w s)) (lower w g) = Some m"
    using assms(6) by (simp add: runtime_models_initialize id)
  have get: "map_of (registered_models s) (lower w g) = None
                 \<longrightarrow> fst (get_model_by_id w (lower w g) s) = Some m"
    using look by (simp add: get_model_by_id_runtime)
  have skip: "\<forall>var val items acc. strip w val = [] \<longrightarrow>
               scan_environ w ((var, val) # items) acc = scan_environ w items acc"
    by (intro allI impI) (rule scan_environ_skip)
  show ?thesis
    apply (insert look get id nm ds ty bu ak pa ca co st ta skip)
    apply (intro conjI exI [of _ m]; assumption)
    done
qed

text \<open>
  With \<^verbatim>\<open>EVAL_HUB_MODEL_GPT4_URL=http://gpt4\<close> alone, \<^verbatim>\<open>get_model_by_id("gpt4")\<close> returns the
  model of that variable, and a variable whose value is blank is passed over.
\<close>

theorem url_variable_gives_runtime_model_witness:
  "fst (get_model_by_id gpt4_world ''gpt4'' ModelService_init) = Some gpt4_model
   \<and> map_of (runtime_models (initialize gpt4_world ModelService_init)) ''gpt4'' = Some gpt4_model
   \<and> scan_environ gpt4_world [(''EVAL_HUB_MODEL_A_URL'', ''  ''),
                               (''EVAL_HUB_MODEL_GPT4_URL'', ''http://gpt4'')] []
       = [(''gpt4'', gpt4_model)]"
proof -
  have env: "environ gpt4_world = [(''EVAL_HUB_MODEL_GPT4_URL'', ''http://gpt4'')]"
    by (simp add: gpt4_world_def)
  have a1: "''GPT4'' \<noteq> []" by simp
  have a2: "CHR 0x0A \<notin> set ''GPT4''" by simp
  have a3: "(''EVAL_HUB_MODEL_'' @ ''GPT4'' @ ''_URL'', ''http://gpt4'') \<in> set (environ gpt4_world)"
    unfolding env by simp
  have a4: "strip gpt4_world ''http://gpt4'' \<noteq> []" by (simp add: strings_ascii)
  have a5: "\<forall>p \<in> set (environ gpt4_world).
              p = (''EVAL_HUB_MODEL_'' @ ''GPT4'' @ ''_URL'', ''http://gpt4'')
            \<or> runtime_id gpt4_world (fst p) (snd p) \<noteq> Some (lower gpt4_world ''GPT4'')"
    unfolding env by simp
  have a6: "\<not> initialized ModelService_init" by (simp add: ModelService_init_def)
  have reg: "map_of (registered_models ModelService_init) ''gpt4'' = None"
    by (simp add: ModelService_init_def)
  have sp: "strip gpt4_world ''  '' = []" by (simp add: strip_def is_ascii_def isspace_def)
  have sc: "scan_environ gpt4_world [(''EVAL_HUB_MODEL_GPT4_URL'', ''http://gpt4'')] []
       = [(''gpt4'', gpt4_model)]" using scan_gpt4 unfolding env .
  note t = url_variable_gives_runtime_model [of "''GPT4''" "''http://gpt4''" gpt4_world
      ModelService_init, OF a1 a2 a3 a4 a5 a6, unfolded strings_ascii]
  have look: "map_of (runtime_models (initialize gpt4_world ModelService_init)) ''gpt4'' = Some gpt4_model"
    using a6 by (simp add: runtime_models_initialize scan_gpt4)
  from t have "\<exists>m. map_of (runtime_models (initialize gpt4_world ModelService_init)) ''gpt4'' = Some m
      \<and> fst (get_model_by_id gpt4_world ''gpt4'' ModelService_init) = Some m"
    using reg by auto
  with look have g: "fst (get_model_by_id gpt4_world ''gpt4'' ModelService_init) = Some gpt4_model"
    by auto
  from t sp have "scan_environ gpt4_world [(''EVAL_HUB_MODEL_A_URL'', ''  ''),
                               (''EVAL_HUB_MODEL_GPT4_URL'', ''http://gpt4'')] []
       = scan_environ gpt4_world [(''EVAL_HUB_MODEL_GPT4_URL'', ''http://gpt4'')] []"
    by blast
  with sc g look show ?thesis by (simp only: simp_thms)
qed

text \<open>
  Not when two variables differ in case only: \<^verbatim>\<open>EVAL_HUB_MODEL_GPT4_URL\<close> is set and has no
  \<^verbatim>\<open>NAME\<close> variable, yet the model under \<^verbatim>\<open>gpt4\<close> is the one of \<^verbatim>\<open>EVAL_HUB_MODEL_gpt4_URL\<close>,
  scanned later: its name is \<^verbatim>\<open>B\<close>, not a synthesised one, and its URL is the other one.
\<close>

theorem case_collision_counterexample:
  "(''EVAL_HUB_MODEL_GPT4_URL'', ''http://gpt4'') \<in> set (environ collision_world)
   \<and> getenv collision_world ''EVAL_HUB_MODEL_GPT4_NAME'' = None
   \<and> lower collision_world ''GPT4'' = ''gpt4''
   \<and> runtime_models (initialize collision_world ModelService_init) = [(''gpt4'', collision_model)]
   \<and> fst (get_model_by_id collision_world ''gpt4'' ModelService_init) = Some collision_model
   \<and> model_name collision_model = ''B''
   \<and> base_url collision_model = ''http://other''"
proof -
  have a6: "\<not> initialized ModelService_init" by (simp add: ModelService_init_def)
  have reg: "map_of (registered_models ModelService_init) ''gpt4'' = None"
    by (simp add: ModelService_init_def)
  have r: "runtime_models (initialize collision_world ModelService_init) = [(''gpt4'', collision_model)]"
    using a6 by (simp add: runtime_models_initialize scan_collision)
  have g: "fst (get_model_by_id collision_world ''gpt4'' ModelService_init) = Some collision_model"
    unfolding get_model_by_id_runtime [OF reg] r by simp
  have e: "(''EVAL_HUB_MODEL_GPT4_URL'', ''http://gpt4'') \<in> set (environ collision_world)"
    "getenv collision_world ''EVAL_HUB_MODEL_GPT4_NAME'' = None"
    by (simp_all add: collision_world_def getenv_def)
  have f: "model_name collision_model = ''B''" "base_url collision_model = ''http://other''"
    by (simp_all add: collision_model_def)
  from e strings_ascii(1) [of collision_world] r g f show ?thesis by (simp only: simp_thms)
qed

subsection \<open>Constructing the executor\<close>

lemma NemoEvaluatorExecutor_init_Inr:
  assumes "NemoEvaluatorExecutor_init cfg = Inr x"
  shows "\<exists>e. map_of cfg ''endpoint'' = Some (StrValue e) \<and> e \<noteq> []
           \<and> x = \<lparr> executor_config = cfg, executor_endpoint = e \<rparr>"
proof (cases "map_of cfg ''endpoint''")
  case None
  with assms show ?thesis by (simp add: NemoEvaluatorExecutor_init_def)
next
  case (Some v)
  with assms show ?thesis
    by (cases v) (simp_all add: NemoEvaluatorExecutor_init_def split: if_splits)
qed

text \<open>
  Claim C8. Constructing the executor from a configuration bag that lacks the endpoint
  fails with an error whose message names the field; constructing it from a bag whose
  endpoint is the empty string fails with another error, whose message says that the
  endpoint must be a non-empty string; and when the construction gives an executor, the
  bag holds an endpoint that is a non-empty string, which the executor carries.
\<close>

theorem executor_construction_validates_endpoint:
  "(map_of cfg ''endpoint'' = None \<longrightarrow>
      NemoEvaluatorExecutor_init cfg =
        Inl (ValueError (''NeMo Evaluator configuration missing required field: '' @ ''endpoint'')))
   \<and> (map_of cfg ''endpoint'' = Some (StrValue []) \<longrightarrow>
        NemoEvaluatorExecutor_init cfg =
          Inl (ValueError ''NeMo Evaluator endpoint must be a non-empty string''))
   \<and> missing_required_field ''endpoint'' \<noteq> must_be_non_empty
   \<and> (\<forall>x. NemoEvaluatorExecutor_init cfg = Inr x \<longrightarrow>
          (\<exists>e. map_of cfg ''endpoint'' = Some (StrValue e) \<and> e \<noteq> []
             \<and> executor_endpoint x = e \<and> executor_config x = cfg))"
proof (intro conjI allI impI)
  assume "map_of cfg ''endpoint'' = None"
  then show "NemoEvaluatorExecutor_init cfg =
        Inl (ValueError (''NeMo Evaluator configuration missing required field: '' @ ''endpoint''))"
    by (simp add: NemoEvaluatorExecutor_init_def missing_required_field_def)
next
  assume "map_of cfg ''endpoint'' = Some (StrValue [])"
  then show "NemoEvaluatorExecutor_init cfg =
          Inl (ValueError ''NeMo Evaluator endpoint must be a non-empty string'')"
    by (simp add: NemoEvaluatorExecutor_init_def must_be_non_empty_def)
next
  show "missing_required_field ''endpoint'' \<noteq> must_be_non_empty"
    by (simp add: missing_required_field_def must_be_non_empty_def)
next
  fix x assume "NemoEvaluatorExecutor_init cfg = Inr x"
  from NemoEvaluatorExecutor_init_Inr [OF this]
  show "\<exists>e. map_of cfg ''endpoint'' = Some (StrValue e) \<and> e \<noteq> []
             \<and> executor_endpoint x = e \<and> executor_config x = cfg"
    by auto
qed

text \<open>
  The bag of the unit test gives an executor; without its endpoint, and with the empty
  string for it, the construction fails with the two messages.
\<close>

theorem executor_construction_validates_endpoint_witness:
  "NemoEvaluatorExecutor_init test_backend_config =
     Inr \<lparr> executor_config = test_backend_config,
           executor_endpoint = ''http://nemo.example.com'' \<rparr>
   \<and> map_of (AList.delete ''endpoint'' test_backend_config) ''endpoint'' = None
   \<and> NemoEvaluatorExecutor_init (AList.delete ''endpoint'' test_backend_config) =
       Inl (ValueError ''NeMo Evaluator configuration missing required field: endpoint'')
   \<and> map_of (AList.update ''endpoint'' (StrValue []) test_backend_config) ''endpoint''
       = Some (StrValue [])
   \<and> NemoEvaluatorExecutor_init (AList.update ''endpoint'' (StrValue []) test_backend_config) =
       Inl (ValueError ''NeMo Evaluator endpoint must be a non-empty string'')"
proof -
  have v: "NemoEvaluatorExecutor_init test_backend_config =
     Inr \<lparr> executor_config = test_backend_config,
           executor_endpoint = ''http://nemo.example.com'' \<rparr>"
    by (simp add: NemoEvaluatorExecutor_init_def test_backend_config_def)
  have d: "map_of (AList.delete ''endpoint'' test_backend_config) ''endpoint'' = None"
    by (simp add: AList.delete_conv')
  have u: "map_of (AList.update ''endpoint'' (StrValue []) test_backend_config) ''endpoint''
       = Some (StrValue [])"
    by (simp add: AList.update_conv')
  note t1 = executor_construction_validates_endpoint
              [of "AList.delete ''endpoint'' test_backend_config"]
  note t2 = executor_construction_validates_endpoint
              [of "AList.update ''endpoint'' (StrValue []) test_backend_config"]
  note t3 = executor_construction_validates_endpoint [of test_backend_config]
  from t1 d have m: "NemoEvaluatorExecutor_init (AList.delete ''endpoint'' test_backend_config) =
       Inl (ValueError ''NeMo Evaluator configuration missing required field: endpoint'')"
    by simp
  from t2 u have e: "NemoEvaluatorExecutor_init
        (AList.update ''endpoint'' (StrValue []) test_backend_config) =
       Inl (ValueError ''NeMo Evaluator endpoint must be a non-empty string'')"
    by simp
  from t3 v have "\<exists>e. map_of test_backend_config ''endpoint'' = Some (StrValue e) \<and> e \<noteq> []"
    by auto
  with v d m u e show ?thesis by (simp only: simp_thms)
qed

end
